theory Spec2Isabelle
  imports
    Complex_Main
    "HOL-Library.Word"
    "HOL-Library.AList"
    "HOL-Library.Char_ord"
    "HOL-Library.List_Lexorder"
begin

unbundle bit_operations_syntax

section \<open>JavaScript values\<close>

text \<open>
  A JavaScript number is either a finite value or one of the three special values. Finite
  values are idealised as reals with exact arithmetic: rounding, overflow and the sign of
  zero are outside this model.
\<close>

datatype jsnum = Num real | NaN | PosInfinity | NegInfinity

text \<open>The scalar values a \<^verbatim>\<open>RawDataRecord\<close> may hold:
  \<^verbatim>\<open>string | number | boolean | null | undefined\<close>.\<close>

datatype jsval = JUndefined | JNull | JBool bool | JNum jsnum | JStr string

text \<open>
  A record is an object with string keys. Reading a key the object does not have yields
  \<^verbatim>\<open>undefined\<close>; a key may also be present and hold \<^verbatim>\<open>undefined\<close>.
\<close>

type_synonym RawDataRecord = "string \<rightharpoonup> jsval"

definition getProp :: "RawDataRecord \<Rightarrow> string \<Rightarrow> jsval" where
  "getProp record key = (case record key of None \<Rightarrow> JUndefined | Some v \<Rightarrow> v)"

text \<open>
  The functions of the JavaScript runtime and of the imported hashing library that the
  sources call but do not define. Every definition below takes them as a parameter.
  \<^item> \<open>hash32\<close>: \<^verbatim>\<open>murmur3.x86.hash32(key, seed)\<close>, an integer;
  \<^item> \<open>number_toString\<close>: the decimal string of a finite number;
  \<^item> \<open>string_toNumber\<close>: \<^verbatim>\<open>Number(s)\<close> on a string;
  \<^item> \<open>parseFloat\<close>: \<^verbatim>\<open>parseFloat(s)\<close>.
\<close>

record runtime =
  hash32 :: "string \<Rightarrow> int \<Rightarrow> int"
  number_toString :: "real \<Rightarrow> string"
  string_toNumber :: "string \<Rightarrow> jsnum"
  parseFloat :: "string \<Rightarrow> jsnum"

fun jsnum_String :: "runtime \<Rightarrow> jsnum \<Rightarrow> string" where
  "jsnum_String rt NaN = ''NaN''"
| "jsnum_String rt PosInfinity = ''Infinity''"
| "jsnum_String rt NegInfinity = ''-Infinity''"
| "jsnum_String rt (Num x) = number_toString rt x"

text \<open>\<^verbatim>\<open>String(value)\<close>.\<close>

fun js_String :: "runtime \<Rightarrow> jsval \<Rightarrow> string" where
  "js_String rt JUndefined = ''undefined''"
| "js_String rt JNull = ''null''"
| "js_String rt (JBool b) = (if b then ''true'' else ''false'')"
| "js_String rt (JNum x) = jsnum_String rt x"
| "js_String rt (JStr s) = s"

text \<open>
  \<^verbatim>\<open>String.prototype.trim\<close>. A \<open>char\<close> stands for a code unit below 256; the white
  space among those is TAB, LF, VT, FF, CR, SPACE and the no-break space.
\<close>

definition js_whitespace :: "char \<Rightarrow> bool" where
  "js_whitespace c = ((of_char c :: nat) \<in> {9, 10, 11, 12, 13, 32, 160})"

definition trim :: "string \<Rightarrow> string" where
  "trim s = rev (dropWhile js_whitespace (rev (dropWhile js_whitespace s)))"

subsection \<open>Arithmetic on numbers\<close>

text \<open>
  The operators the sources apply to numbers, on the idealised numbers: exact on finite
  values, and with the IEEE rules for \<open>NaN\<close> and the infinities.
\<close>

fun js_neg :: "jsnum \<Rightarrow> jsnum" where
  "js_neg (Num x) = Num (- x)"
| "js_neg NaN = NaN"
| "js_neg PosInfinity = NegInfinity"
| "js_neg NegInfinity = PosInfinity"

fun js_add :: "jsnum \<Rightarrow> jsnum \<Rightarrow> jsnum" where
  "js_add (Num x) (Num y) = Num (x + y)"
| "js_add NaN _ = NaN"
| "js_add _ NaN = NaN"
| "js_add PosInfinity NegInfinity = NaN"
| "js_add NegInfinity PosInfinity = NaN"
| "js_add PosInfinity _ = PosInfinity"
| "js_add _ PosInfinity = PosInfinity"
| "js_add NegInfinity _ = NegInfinity"
| "js_add _ NegInfinity = NegInfinity"

definition js_sub :: "jsnum \<Rightarrow> jsnum \<Rightarrow> jsnum" where
  "js_sub a b = js_add a (js_neg b)"

text \<open>An infinity times a finite number \<open>y\<close>.\<close>

definition inf_times :: "bool \<Rightarrow> real \<Rightarrow> jsnum" where
  "inf_times positive y =
     (if y = 0 then NaN else if (0 < y) = positive then PosInfinity else NegInfinity)"

fun js_mul :: "jsnum \<Rightarrow> jsnum \<Rightarrow> jsnum" where
  "js_mul (Num x) (Num y) = Num (x * y)"
| "js_mul NaN _ = NaN"
| "js_mul _ NaN = NaN"
| "js_mul PosInfinity (Num y) = inf_times True y"
| "js_mul NegInfinity (Num y) = inf_times False y"
| "js_mul (Num x) PosInfinity = inf_times True x"
| "js_mul (Num x) NegInfinity = inf_times False x"
| "js_mul PosInfinity PosInfinity = PosInfinity"
| "js_mul NegInfinity NegInfinity = PosInfinity"
| "js_mul PosInfinity NegInfinity = NegInfinity"
| "js_mul NegInfinity PosInfinity = NegInfinity"

fun js_div :: "jsnum \<Rightarrow> jsnum \<Rightarrow> jsnum" where
  "js_div (Num x) (Num y) =
     (if y = 0 then (if x = 0 then NaN else if 0 < x then PosInfinity else NegInfinity)
      else Num (x / y))"
| "js_div NaN _ = NaN"
| "js_div _ NaN = NaN"
| "js_div (Num x) PosInfinity = Num 0"
| "js_div (Num x) NegInfinity = Num 0"
| "js_div PosInfinity (Num y) = (if 0 \<le> y then PosInfinity else NegInfinity)"
| "js_div NegInfinity (Num y) = (if 0 \<le> y then NegInfinity else PosInfinity)"
| "js_div PosInfinity PosInfinity = NaN"
| "js_div PosInfinity NegInfinity = NaN"
| "js_div NegInfinity PosInfinity = NaN"
| "js_div NegInfinity NegInfinity = NaN"

fun js_sqrt :: "jsnum \<Rightarrow> jsnum" where
  "js_sqrt (Num x) = (if x < 0 then NaN else Num (sqrt x))"
| "js_sqrt NaN = NaN"
| "js_sqrt PosInfinity = PosInfinity"
| "js_sqrt NegInfinity = NaN"

text \<open>\<open>a < b\<close>; false whenever an operand is \<open>NaN\<close>.\<close>

fun js_less :: "jsnum \<Rightarrow> jsnum \<Rightarrow> bool" where
  "js_less (Num x) (Num y) = (x < y)"
| "js_less NaN _ = False"
| "js_less _ NaN = False"
| "js_less _ NegInfinity = False"
| "js_less PosInfinity _ = False"
| "js_less NegInfinity _ = True"
| "js_less _ PosInfinity = True"

text \<open>\<open>a === b\<close> on numbers: \<open>NaN\<close> equals nothing.\<close>

definition js_eq :: "jsnum \<Rightarrow> jsnum \<Rightarrow> bool" where
  "js_eq a b = (a \<noteq> NaN \<and> a = b)"

text \<open>\<^verbatim>\<open>Math.min(...values)\<close> and \<^verbatim>\<open>Math.max(...values)\<close>.\<close>

definition js_min2 :: "jsnum \<Rightarrow> jsnum \<Rightarrow> jsnum" where
  "js_min2 a b = (if a = NaN \<or> b = NaN then NaN else if js_less b a then b else a)"

definition js_max2 :: "jsnum \<Rightarrow> jsnum \<Rightarrow> jsnum" where
  "js_max2 a b = (if a = NaN \<or> b = NaN then NaN else if js_less a b then b else a)"

definition Math_min :: "jsnum list \<Rightarrow> jsnum" where
  "Math_min values = foldl js_min2 PosInfinity values"

definition Math_max :: "jsnum list \<Rightarrow> jsnum" where
  "Math_max values = foldl js_max2 NegInfinity values"

text \<open>\<^verbatim>\<open>x || d\<close> on an optional number (absent and \<open>0\<close> are falsy) and on an optional
  string (absent and the empty string are falsy).\<close>

definition num_or :: "real option \<Rightarrow> real \<Rightarrow> real" where
  "num_or x d = (case x of None \<Rightarrow> d | Some v \<Rightarrow> if v = 0 then d else v)"

definition str_or :: "string option \<Rightarrow> string \<Rightarrow> string" where
  "str_or x d = (case x of None \<Rightarrow> d | Some s \<Rightarrow> if s = [] then d else s)"

text \<open>\<^verbatim>\<open>Array.prototype.slice(start, stop)\<close>: a negative index counts from the end, and
  both indices are clamped to the array.\<close>

definition js_slice :: "int \<Rightarrow> int \<Rightarrow> 'a list \<Rightarrow> 'a list" where
  "js_slice start stop xs =
     (let len = int (length xs);
          rel = (\<lambda>i. if i < 0 then max (len + i) 0 else min i len);
          s = rel start;
          e = rel stop
      in take (nat (e - s)) (drop (nat s) xs))"

text \<open>\<^verbatim>\<open>Array.prototype.indexOf\<close>, with \<open>None\<close> for \<open>-1\<close>.\<close>

fun indexOf :: "'a list \<Rightarrow> 'a \<Rightarrow> nat option" where
  "indexOf [] x = None"
| "indexOf (y # ys) x = (if y = x then Some 0 else map_option Suc (indexOf ys x))"

section \<open>Errors\<close>

text \<open>One constructor for each \<^verbatim>\<open>throw new Error(...)\<close> of the modelled sources.\<close>

datatype error =
    InvalidBucketCount int
  | EmptyData
  | NoFeaturesSpecified
  | FeaturesNotFound "string list"
  | FeaturesInBothLists "string list"
  | DataValidationFailed
  | NoDataLoaded
  | UnknownClass string
  | NormalizationNotSet
  | InvalidNumericTarget string
  | TargetNotNumeric jsval
  | NoTrainedModel
  | ModelNotTrainedYet
  | ModelNotLoaded
  | MetadataNotFound
  | OneVsRestDirNotFound
  | NoOneVsRestModels
  | ModelFileNotFound

section \<open>HashEncoder\<close>

record HashEncoder =
  bucketCount :: int
  hashSeed :: int
  featureName :: string

text \<open>
  The constructor. \<open>bucketCount\<close> is an integer here, so of the source's check
  \<^verbatim>\<open>!Number.isInteger(bucketCount) || bucketCount <= 0\<close> the second half remains.
  The defaults of the optional arguments are \<open>42\<close> and \<open>'unknown'\<close>; the warning for a
  bucket count above one million has no effect on the result.
\<close>

definition new_HashEncoder :: "int \<Rightarrow> int option \<Rightarrow> string option \<Rightarrow> error + HashEncoder" where
  "new_HashEncoder n seed name =
     (if n \<le> 0 then Inl (InvalidBucketCount n)
      else Inr \<lparr>bucketCount = n,
                hashSeed = (case seed of None \<Rightarrow> 42 | Some s \<Rightarrow> s),
                featureName = (case name of None \<Rightarrow> ''unknown'' | Some f \<Rightarrow> f)\<rparr>)"

fun normalizeValue :: "runtime \<Rightarrow> jsval \<Rightarrow> string" where
  "normalizeValue rt JNull = ''__NULL__''"
| "normalizeValue rt JUndefined = ''__NULL__''"
| "normalizeValue rt (JBool b) = (if b then ''__TRUE__'' else ''__FALSE__'')"
| "normalizeValue rt (JNum NaN) = ''__NaN__''"
| "normalizeValue rt (JNum PosInfinity) = ''__INFINITY__''"
| "normalizeValue rt (JNum NegInfinity) = ''__NEGATIVE_INFINITY__''"
| "normalizeValue rt (JNum (Num x)) = number_toString rt x"
| "normalizeValue rt (JStr s) =
     (let stringValue = trim s
      in if length stringValue = 0 then ''__EMPTY__'' else stringValue)"

text \<open>\<^verbatim>\<open>Math.abs(hashValue) % this.bucketCount\<close>.\<close>

definition bucketIndex :: "runtime \<Rightarrow> HashEncoder \<Rightarrow> jsval \<Rightarrow> nat" where
  "bucketIndex rt e v =
     (let stringValue = normalizeValue rt v;
          hashValue = hash32 rt stringValue (hashSeed e)
      in nat (\<bar>hashValue\<bar> mod bucketCount e))"

text \<open>The \<^verbatim>\<open>Float32Array\<close> of zeros with \<open>1.0\<close> stored at the bucket index.\<close>

definition encode :: "runtime \<Rightarrow> HashEncoder \<Rightarrow> jsval \<Rightarrow> real list" where
  "encode rt e v = (replicate (nat (bucketCount e)) 0)[bucketIndex rt e v := 1]"

definition encodeBatch :: "runtime \<Rightarrow> HashEncoder \<Rightarrow> jsval list \<Rightarrow> real list list" where
  "encodeBatch rt e vs = map (encode rt e) vs"

definition getConfig :: "HashEncoder \<Rightarrow> HashEncoder" where
  "getConfig e = \<lparr>bucketCount = bucketCount e, hashSeed = hashSeed e, featureName = featureName e\<rparr>"

definition getDimension :: "HashEncoder \<Rightarrow> int" where
  "getDimension e = bucketCount e"

text \<open>The second argument (\<^verbatim>\<open>_maxCollisionRate\<close>, default \<open>0.1\<close>) is never read.\<close>

definition suggestBucketCount :: "int \<Rightarrow> real option \<Rightarrow> int" where
  "suggestBucketCount uniqueValues maxCollisionRate =
     (if uniqueValues \<le> 1 then 1
      else if uniqueValues \<le> 1000 then uniqueValues * uniqueValues
      else 20 * uniqueValues)"

section \<open>FeatureAnalyzer\<close>

record FeatureSpec =
  spec_k :: int
  spec_bucketCount :: int

definition calculateBucketCount :: "int \<Rightarrow> int" where
  "calculateBucketCount k = (if k \<le> 1000 then k * k else 20 * k)"

text \<open>\<^verbatim>\<open>Set.prototype.add\<close> on a set kept in insertion order.\<close>

definition set_add :: "'a list \<Rightarrow> 'a \<Rightarrow> 'a list" where
  "set_add xs x = (if x \<in> set xs then xs else xs @ [x])"

text \<open>The string one record contributes to \<^verbatim>\<open>uniqueValues\<close> for a feature.\<close>

definition categoryKey :: "runtime \<Rightarrow> RawDataRecord \<Rightarrow> string \<Rightarrow> string" where
  "categoryKey rt record feature =
     (let v = getProp record feature
      in if v = JNull \<or> v = JUndefined then ''__NULL__'' else js_String rt v)"

definition uniqueValues :: "runtime \<Rightarrow> RawDataRecord list \<Rightarrow> string \<Rightarrow> string list" where
  "uniqueValues rt data feature = fold (\<lambda>record s. set_add s (categoryKey rt record feature)) data []"

text \<open>
  \<^verbatim>\<open>analyzeCategoricalFeatures\<close>. The result object \<^verbatim>\<open>specs\<close> is an association list;
  assigning to a key that exists replaces its value in place. The warnings are logged only.
\<close>

definition analyzeCategoricalFeatures ::
    "runtime \<Rightarrow> RawDataRecord list \<Rightarrow> string list \<Rightarrow> (string \<times> FeatureSpec) list" where
  "analyzeCategoricalFeatures rt data categoricalFeatures =
     fold (\<lambda>feature specs.
             (let k = int (length (uniqueValues rt data feature));
                  bc = calculateBucketCount k
              in AList.update feature \<lparr>spec_k = k, spec_bucketCount = bc\<rparr> specs))
          categoricalFeatures []"

text \<open>\<^verbatim>\<open>analyzeTargetClasses\<close>: the distinct \<^verbatim>\<open>String(value)\<close> of the non-null targets,
  sorted by code unit.\<close>

definition analyzeTargetClasses :: "runtime \<Rightarrow> RawDataRecord list \<Rightarrow> string \<Rightarrow> string list" where
  "analyzeTargetClasses rt data targetFeature =
     sort (fold (\<lambda>record s.
                   (let v = getProp record targetFeature
                    in if v = JNull \<or> v = JUndefined then s else set_add s (js_String rt v)))
                data [])"

text \<open>\<^verbatim>\<open>validateInputData\<close>; \<open>None\<close> when every check passes. An absent or empty target name
  is falsy and is not checked.\<close>

definition validateInputData ::
    "RawDataRecord list \<Rightarrow> string list \<Rightarrow> string list \<Rightarrow> string option \<Rightarrow> error option" where
  "validateInputData data categoricalFeatures numericFeatures targetFeature =
     (case data of
        [] \<Rightarrow> Some EmptyData
      | sampleRecord # _ \<Rightarrow>
          if length categoricalFeatures = 0 \<and> length numericFeatures = 0 then Some NoFeaturesSpecified
          else
            (let allFeatures = categoricalFeatures @ numericFeatures @
                   (case targetFeature of None \<Rightarrow> [] | Some t \<Rightarrow> if t = [] then [] else [t]);
                 missingFeatures = filter (\<lambda>feature. sampleRecord feature = None) allFeatures;
                 duplicateFeatures = filter (\<lambda>feature. feature \<in> set numericFeatures) categoricalFeatures
             in if length missingFeatures > 0 then Some (FeaturesNotFound missingFeatures)
                else if length duplicateFeatures > 0 then Some (FeaturesInBothLists duplicateFeatures)
                else None))"

text \<open>
  The part of \<^verbatim>\<open>FeatureAnalysisResult\<close> that the trainer reads: the categorical specs and
  the target classes. The numeric statistics and the row and null counters are not modelled.
\<close>

record FeatureAnalysisResult =
  categoricalSpecs :: "(string \<times> FeatureSpec) list"
  targetClasses :: "string list"

definition analyzeFeatures ::
    "runtime \<Rightarrow> RawDataRecord list \<Rightarrow> string list \<Rightarrow> string list \<Rightarrow> string option
       \<Rightarrow> error + FeatureAnalysisResult" where
  "analyzeFeatures rt data categoricalFeatures numericFeatures targetFeature =
     (case validateInputData data categoricalFeatures numericFeatures targetFeature of
        Some err \<Rightarrow> Inl err
      | None \<Rightarrow>
          Inr \<lparr>categoricalSpecs = analyzeCategoricalFeatures rt data categoricalFeatures,
               targetClasses =
                 (case targetFeature of
                    None \<Rightarrow> []
                  | Some t \<Rightarrow> if t = [] then [] else analyzeTargetClasses rt data t)\<rparr>)"

section \<open>A reference runtime\<close>

text \<open>
  Modelled from the spec: the 32-bit hash (MurmurHash3 x86-32) that HashEncoder imports
  from the package murmurhash3js, which is not among the repository's sources. Each code
  unit contributes its low byte; the result is read as an unsigned 32-bit integer.
\<close>

definition x86Rotl :: "32 word \<Rightarrow> nat \<Rightarrow> 32 word" where
  "x86Rotl m n = push_bit n m OR drop_bit (32 - n) m"

definition x86Fmix :: "32 word \<Rightarrow> 32 word" where
  "x86Fmix h0 =
     (let h1 = h0 XOR drop_bit 16 h0;
          h2 = h1 * 0x85ebca6b;
          h3 = h2 XOR drop_bit 13 h2;
          h4 = h3 * 0xc2b2ae35
      in h4 XOR drop_bit 16 h4)"

definition x86MixK :: "32 word \<Rightarrow> 32 word" where
  "x86MixK k1 = x86Rotl (k1 * 0xcc9e2d51) 15 * 0x1b873593"

definition lowByte :: "char \<Rightarrow> 32 word" where
  "lowByte c = of_char c"

fun x86Blocks :: "32 word \<Rightarrow> string \<Rightarrow> 32 word" where
  "x86Blocks h1 (a # b # c # d # rest) =
     x86Blocks
       (x86Rotl (h1 XOR x86MixK (lowByte a OR push_bit 8 (lowByte b) OR push_bit 16 (lowByte c)
                                   OR push_bit 24 (lowByte d))) 13 * 5 + 0xe6546b64)
       rest"
| "x86Blocks h1 [a, b, c] = h1 XOR x86MixK (push_bit 16 (lowByte c) XOR push_bit 8 (lowByte b) XOR lowByte a)"
| "x86Blocks h1 [a, b] = h1 XOR x86MixK (push_bit 8 (lowByte b) XOR lowByte a)"
| "x86Blocks h1 [a] = h1 XOR x86MixK (lowByte a)"
| "x86Blocks h1 [] = h1"

definition murmur3_x86_hash32 :: "string \<Rightarrow> int \<Rightarrow> int" where
  "murmur3_x86_hash32 key seed =
     uint (x86Fmix (x86Blocks (word_of_int seed) key XOR of_nat (length key)))"

text \<open>Decimal digits of a natural number, most significant first.\<close>

fun digits :: "nat \<Rightarrow> string" where
  "digits n = (if n < 10 then [char_of (48 + n)] else digits (n div 10) @ [char_of (48 + n mod 10)])"

declare digits.simps [simp del]

text \<open>
  The string of an integer-valued number, and the value of a string of decimal digits.
  On those inputs they agree with \<^verbatim>\<open>Number.prototype.toString\<close>, \<^verbatim>\<open>Number\<close> and
  \<^verbatim>\<open>parseFloat\<close>; the closed instances below evaluate them on no other input.
\<close>

definition integer_toString :: "real \<Rightarrow> string" where
  "integer_toString x = (if x < 0 then ''-'' @ digits (nat \<lfloor>- x\<rfloor>) else digits (nat \<lfloor>x\<rfloor>))"

definition isDigit :: "char \<Rightarrow> bool" where
  "isDigit c = (48 \<le> (of_char c :: nat) \<and> (of_char c :: nat) \<le> 57)"

definition digits_toNumber :: "string \<Rightarrow> jsnum" where
  "digits_toNumber s =
     (if s \<noteq> [] \<and> list_all isDigit s
      then Num (real (foldl (\<lambda>acc c. 10 * acc + (of_char c - 48)) 0 s))
      else NaN)"

definition ref_runtime :: runtime where
  "ref_runtime = \<lparr>hash32 = murmur3_x86_hash32, number_toString = integer_toString,
                   string_toNumber = digits_toNumber, parseFloat = digits_toNumber\<rparr>"

section \<open>The boosted-tree library and the training configuration\<close>

datatype TaskType = classification | regression

record XgbParams =
  objective :: "string option"
  max_depth :: "real option"
  eta :: "real option"
  num_class :: "real option"
  num_boost_round :: "real option"
  min_child_weight :: "real option"
  gamma :: "real option"
  subsample :: "real option"
  colsample_bytree :: "real option"
  alpha :: "real option"
  lambda :: "real option"
  seed :: "real option"
  nthread :: "real option"
  verbosity :: "real option"
  booster :: "string option"
  eval_metric :: "string option"

text \<open>The object handed to \<^verbatim>\<open>new XGBoost(params)\<close>.\<close>

record XGBoostParams =
  learningRate :: real
  maxDepth :: real
  numRounds :: real
  objective :: string
  evalMetric :: string
  seed :: real
  minChildWeight :: real
  booster :: string
  subsample :: real
  colsampleBytree :: real
  verbosity :: real
  gamma :: real
  alpha :: real
  lambda :: real
  nthread :: real

text \<open>
  The library \<^verbatim>\<open>@fractal-solutions/xgboost-js\<close> is used through its interface only:
  \<open>fit params X y\<close> is the model that \<^verbatim>\<open>new XGBoost(params)\<close> holds after
  \<^verbatim>\<open>fit(X, y)\<close>. Models have type \<open>'m\<close>, their JSON form has type \<open>'j\<close>.
\<close>

record ('m, 'j) XGBoost =
  fit :: "XGBoostParams \<Rightarrow> jsnum list list \<Rightarrow> jsnum list \<Rightarrow> 'm"
  predictSingle :: "'m \<Rightarrow> jsnum list \<Rightarrow> jsnum"
  toJSON :: "'m \<Rightarrow> 'j"
  fromJSON :: "'j \<Rightarrow> 'm"

text \<open>\<^verbatim>\<open>TrainingConfig\<close>; its fields \<^verbatim>\<open>seed\<close> and \<^verbatim>\<open>taskType\<close> are never read.
  The fold count is an integer here.\<close>

record TrainingConfig =
  useCrossValidation :: "bool option"
  nFolds :: "int option"
  testRatio :: "real option"
  shuffle :: "bool option"

record Dataset =
  data :: "RawDataRecord list"
  categoricalFeatures :: "string list"
  numericFeatures :: "string list"
  target :: string

record DataSplit =
  train :: Dataset
  test :: Dataset

text \<open>
  Of \<^verbatim>\<open>ModelMetrics\<close>, the cross-validation scores are modelled; what
  \<^verbatim>\<open>evaluateModel\<close> computes on the held-out records (accuracy, confusion matrix,
  errors) is kept as one value of type \<open>'e\<close>.
\<close>

record 'e ModelMetrics =
  evaluation :: 'e
  crossValidationScores :: "jsnum list option"

text \<open>Minimum and maximum of the regression target (mean and deviation are not modelled).\<close>

record Bounds =
  norm_min :: jsnum
  norm_max :: jsnum

section \<open>Model metadata and Model\<close>

record EncoderMetadata = HashEncoder +
  uniqueCount :: int

record 'e ModelMetadata =
  version :: string
  createdAt :: string
  categoricalFeatures :: "string list"
  numericFeatures :: "string list"
  target :: string
  taskType :: TaskType
  classes :: "string list option"
  numClasses :: "nat option"
  xgbParams :: XgbParams
  encoders :: "EncoderMetadata list"
  metrics :: "'e ModelMetrics option"
  isOneVsRest :: bool
  targetStats :: "Bounds option"
  targetNormalization :: "Bounds option"

record ('m, 'e) Model =
  metadata :: "'e ModelMetadata"
  encoders :: "(string \<times> HashEncoder) list"
  model :: "'m option"
  oneVsRestModels :: "(string \<times> 'm) list"

text \<open>The constructor: one encoder per persisted entry, stored under its feature name.\<close>

fun restoreEncoders ::
    "EncoderMetadata list \<Rightarrow> (string \<times> HashEncoder) list \<Rightarrow> error + (string \<times> HashEncoder) list" where
  "restoreEncoders [] encs = Inr encs"
| "restoreEncoders (encoderMeta # rest) encs =
     (case new_HashEncoder (bucketCount encoderMeta) (Some (hashSeed encoderMeta))
             (Some (featureName encoderMeta)) of
        Inl err \<Rightarrow> Inl err
      | Inr encoder \<Rightarrow> restoreEncoders rest (AList.update (featureName encoderMeta) encoder encs))"

definition new_Model :: "'e ModelMetadata \<Rightarrow> error + ('m, 'e) Model" where
  "new_Model md =
     (case restoreEncoders (ModelMetadata.encoders md) [] of
        Inl err \<Rightarrow> Inl err
      | Inr encs \<Rightarrow> Inr \<lparr>metadata = md, encoders = encs, model = None, oneVsRestModels = []\<rparr>)"

text \<open>
  \<^verbatim>\<open>Model.transform\<close>. A categorical feature without an encoder contributes nothing
  (and logs a warning); a numeric feature contributes its number, the value of a numeric
  string, and \<open>0\<close> otherwise.
\<close>

definition encodeFeature ::
    "runtime \<Rightarrow> (string \<times> HashEncoder) list \<Rightarrow> RawDataRecord \<Rightarrow> string \<Rightarrow> jsnum list" where
  "encodeFeature rt encs record feature =
     (case map_of encs feature of
        Some encoder \<Rightarrow> map Num (encode rt encoder (getProp record feature))
      | None \<Rightarrow> [])"

definition Model_numericValue :: "runtime \<Rightarrow> jsval \<Rightarrow> jsnum" where
  "Model_numericValue rt v =
     (case v of
        JNum x \<Rightarrow> x
      | JStr s \<Rightarrow> if string_toNumber rt s \<noteq> NaN then string_toNumber rt s else Num 0
      | _ \<Rightarrow> Num 0)"

definition transform :: "runtime \<Rightarrow> ('m, 'e) Model \<Rightarrow> RawDataRecord \<Rightarrow> jsnum list" where
  "transform rt m record =
     concat (map (encodeFeature rt (Model.encoders m) record)
                 (ModelMetadata.categoricalFeatures (metadata m)))
     @ map (\<lambda>feature. Model_numericValue rt (getProp record feature))
           (ModelMetadata.numericFeatures (metadata m))"

definition transformBatch :: "runtime \<Rightarrow> ('m, 'e) Model \<Rightarrow> RawDataRecord list \<Rightarrow> jsnum list list" where
  "transformBatch rt m records = map (transform rt m) records"

definition getFeatureCount :: "('m, 'e) Model \<Rightarrow> int" where
  "getFeatureCount m =
     foldl (\<lambda>count feature.
              (case map_of (Model.encoders m) feature of
                 Some encoder \<Rightarrow> count + getDimension encoder
               | None \<Rightarrow> count))
           0 (ModelMetadata.categoricalFeatures (metadata m))
     + int (length (ModelMetadata.numericFeatures (metadata m)))"




section \<open>Trainer\<close>

record ('m, 'e) Trainer =
  categoricalFeatures :: "string list"
  numericFeatures :: "string list"
  target :: string
  taskType :: TaskType
  xgbParams :: XgbParams
  dataset :: "Dataset option"
  encoders :: "(string \<times> HashEncoder) list"
  model :: "'m option"
  classes :: "string list"
  isMultiClass :: bool
  isOneVsRest :: bool
  oneVsRestModels :: "(string \<times> 'm) list"
  trainedAt :: "string option"
  trainingMetrics :: "'e ModelMetrics option"
  targetStats :: "Bounds option"
  targetNormalization :: "Bounds option"

record TrainerConfig =
  categoricalFeatures :: "string list"
  numericFeatures :: "string list"
  target :: string
  taskType :: "TaskType option"
  xgbParams :: XgbParams

text \<open>
  What a training run takes from outside the modelled code: \<open>Math_random i\<close> is the value
  \<^verbatim>\<open>Math.random()\<close> returns in the shuffle's iteration for index \<open>i\<close>, \<open>timestamp\<close> is
  the time string taken when training ends, and \<open>evaluateModel\<close> stands for the metric
  computation on the held-out records.
\<close>

record ('m, 'e) TrainEnv =
  Math_random :: "nat \<Rightarrow> real"
  timestamp :: string
  evaluateModel :: "('m, 'e) Trainer \<Rightarrow> jsnum list list \<Rightarrow> jsnum list \<Rightarrow> 'e"

definition new_Trainer :: "TrainerConfig \<Rightarrow> ('m, 'e) Trainer" where
  "new_Trainer config =
     \<lparr>Trainer.categoricalFeatures = TrainerConfig.categoricalFeatures config,
      Trainer.numericFeatures = TrainerConfig.numericFeatures config,
      Trainer.target = TrainerConfig.target config,
      Trainer.taskType = (case TrainerConfig.taskType config of None \<Rightarrow> classification | Some tt \<Rightarrow> tt),
      Trainer.xgbParams = TrainerConfig.xgbParams config,
      dataset = None,
      Trainer.encoders = [],
      Trainer.model = None,
      Trainer.classes = [],
      isMultiClass = False,
      Trainer.isOneVsRest = False,
      Trainer.oneVsRestModels = [],
      trainedAt = None,
      trainingMetrics = None,
      Trainer.targetStats = None,
      Trainer.targetNormalization = None\<rparr>"

text \<open>\<^verbatim>\<open>DataLoader.validateData\<close> on an array of records.\<close>

definition validateData :: "RawDataRecord list \<Rightarrow> string list \<Rightarrow> bool" where
  "validateData ds requiredFeatures =
     (case ds of
        [] \<Rightarrow> False
      | sampleRecord # _ \<Rightarrow>
          (if length requiredFeatures > 0
           then (let missingFeatures = filter (\<lambda>feature. sampleRecord feature = None) requiredFeatures
                 in \<not> length missingFeatures > 0)
           else True))"

text \<open>An \<^verbatim>\<open>Array.prototype.map\<close> whose callback may throw: the first error ends it.\<close>

fun mapE :: "('a \<Rightarrow> error + 'b) \<Rightarrow> 'a list \<Rightarrow> error + 'b list" where
  "mapE f [] = Inr []"
| "mapE f (x # xs) =
     (case f x of
        Inl err \<Rightarrow> Inl err
      | Inr y \<Rightarrow> (case mapE f xs of Inl err \<Rightarrow> Inl err | Inr ys \<Rightarrow> Inr (y # ys)))"

text \<open>The number a regression target stands for (the same conversion appears in
  \<^verbatim>\<open>calculateTargetStats\<close> and in \<^verbatim>\<open>transformTargets\<close>).\<close>

fun targetNumber :: "runtime \<Rightarrow> jsval \<Rightarrow> error + jsnum" where
  "targetNumber rt (JNum x) = Inr x"
| "targetNumber rt (JStr s) =
     (let numericValue = parseFloat rt s
      in if numericValue = NaN then Inl (InvalidNumericTarget s) else Inr numericValue)"
| "targetNumber rt v = Inl (TargetNotNumeric v)"

definition calculateTargetStats :: "runtime \<Rightarrow> string \<Rightarrow> RawDataRecord list \<Rightarrow> error + Bounds" where
  "calculateTargetStats rt tgt ds =
     (case mapE (\<lambda>record. targetNumber rt (getProp record tgt)) ds of
        Inl err \<Rightarrow> Inl err
      | Inr targetValues \<Rightarrow> Inr \<lparr>norm_min = Math_min targetValues, norm_max = Math_max targetValues\<rparr>)"

fun createEncoders ::
    "(string \<times> FeatureSpec) list \<Rightarrow> (string \<times> HashEncoder) list \<Rightarrow> error + (string \<times> HashEncoder) list" where
  "createEncoders [] encs = Inr encs"
| "createEncoders ((feature, spec) # rest) encs =
     (case new_HashEncoder (spec_bucketCount spec) (Some 42) (Some feature) of
        Inl err \<Rightarrow> Inl err
      | Inr encoder \<Rightarrow> createEncoders rest (AList.update feature encoder encs))"

definition loadRaw :: "runtime \<Rightarrow> ('m, 'e) Trainer \<Rightarrow> RawDataRecord list \<Rightarrow> error + ('m, 'e) Trainer" where
  "loadRaw rt t ds =
     (let allFeatures = Trainer.categoricalFeatures t @ Trainer.numericFeatures t @ [Trainer.target t]
      in if \<not> validateData ds allFeatures then Inl DataValidationFailed
         else
           (case analyzeFeatures rt ds (Trainer.categoricalFeatures t) (Trainer.numericFeatures t)
                   (Some (Trainer.target t)) of
              Inl err \<Rightarrow> Inl err
            | Inr analysis \<Rightarrow>
                (case createEncoders (categoricalSpecs analysis) (Trainer.encoders t) of
                   Inl err \<Rightarrow> Inl err
                 | Inr encs \<Rightarrow>
                     (case (if Trainer.taskType t = classification
                            then (let cls = sort (targetClasses analysis)
                                  in Inr (t\<lparr>Trainer.encoders := encs, Trainer.classes := cls,
                                            isMultiClass := (length cls > 2)\<rparr>))
                            else (case calculateTargetStats rt (Trainer.target t) ds of
                                    Inl err \<Rightarrow> Inl err
                                  | Inr stats \<Rightarrow>
                                      Inr (t\<lparr>Trainer.encoders := encs,
                                             Trainer.targetStats := Some stats,
                                             Trainer.targetNormalization :=
                                               Some \<lparr>norm_min = norm_min stats, norm_max = norm_max stats\<rparr>\<rparr>))) of
                        Inl err \<Rightarrow> Inl err
                      | Inr t' \<Rightarrow>
                          Inr (t'\<lparr>dataset :=
                                    Some \<lparr>data = ds,
                                          Dataset.categoricalFeatures = Trainer.categoricalFeatures t,
                                          Dataset.numericFeatures = Trainer.numericFeatures t,
                                          Dataset.target = Trainer.target t\<rparr>\<rparr>)))))"

subsection \<open>Encoding the records and the targets\<close>

definition Trainer_numericValue :: "jsval \<Rightarrow> jsnum" where
  "Trainer_numericValue v = (case v of JNum x \<Rightarrow> x | _ \<Rightarrow> Num 0)"

definition transformRecords :: "runtime \<Rightarrow> ('m, 'e) Trainer \<Rightarrow> RawDataRecord list \<Rightarrow> jsnum list list" where
  "transformRecords rt t records =
     map (\<lambda>record.
            concat (map (encodeFeature rt (Trainer.encoders t) record) (Trainer.categoricalFeatures t))
            @ map (\<lambda>feature. Trainer_numericValue (getProp record feature)) (Trainer.numericFeatures t))
         records"

definition transformTargets :: "runtime \<Rightarrow> ('m, 'e) Trainer \<Rightarrow> RawDataRecord list \<Rightarrow> error + jsnum list" where
  "transformTargets rt t records =
     (if Trainer.taskType t = classification
      then mapE (\<lambda>record.
                   (let targetValue = js_String rt (getProp record (Trainer.target t))
                    in case indexOf (Trainer.classes t) targetValue of
                         None \<Rightarrow> Inl (UnknownClass targetValue)
                       | Some classIndex \<Rightarrow> Inr (Num (real classIndex))))
                records
      else (case Trainer.targetNormalization t of
              None \<Rightarrow> Inl NormalizationNotSet
            | Some tn \<Rightarrow>
                (let range = js_sub (norm_max tn) (norm_min tn)
                 in if js_eq range (Num 0) then Inr (map (\<lambda>_. Num 0.5) records)
                    else mapE (\<lambda>record.
                                 (case targetNumber rt (getProp record (Trainer.target t)) of
                                    Inl err \<Rightarrow> Inl err
                                  | Inr numericValue \<Rightarrow>
                                      Inr (js_div (js_sub numericValue (norm_min tn)) range)))
                              records)))"

subsection \<open>Splitting\<close>

text \<open>
  The shuffle loop \<^verbatim>\<open>for (i = length - 1; i > 0; i--)\<close>. \<^verbatim>\<open>Math.random()\<close> lies in
  \<open>[0, 1)\<close>, so \<open>j \<le> i\<close> at every swap; the model leaves the array alone otherwise.
\<close>

fun shuffleLoop :: "(nat \<Rightarrow> real) \<Rightarrow> nat \<Rightarrow> 'a list \<Rightarrow> 'a list" where
  "shuffleLoop rand 0 xs = xs"
| "shuffleLoop rand (Suc i') xs =
     (let i = Suc i';
          j = nat \<lfloor>rand i * real (i + 1)\<rfloor>
      in shuffleLoop rand i' (if j \<le> i then xs[i := xs ! j, j := xs ! i] else xs))"

definition splitData :: "(nat \<Rightarrow> real) \<Rightarrow> Dataset \<Rightarrow> TrainingConfig \<Rightarrow> DataSplit" where
  "splitData rand ds config =
     (let ratio = num_or (testRatio config) 0.2;
          doShuffle = (shuffle config \<noteq> Some False);
          shuffledData = (if doShuffle then shuffleLoop rand (length (data ds) - 1) (data ds) else data ds);
          splitIndex = \<lfloor>real (length (data ds)) * (1 - ratio)\<rfloor>;
          trainData = js_slice 0 splitIndex shuffledData;
          testData = js_slice splitIndex (int (length shuffledData)) shuffledData
      in \<lparr>train = ds\<lparr>data := trainData\<rparr>, test = ds\<lparr>data := testData\<rparr>\<rparr>)"

text \<open>The encoded training part and, when the test part is not empty, the encoded test part.\<close>

definition transformFeatures ::
    "runtime \<Rightarrow> ('m, 'e) Trainer \<Rightarrow> DataSplit
       \<Rightarrow> error + (jsnum list list \<times> jsnum list \<times> (jsnum list list \<times> jsnum list) option)" where
  "transformFeatures rt t dataSplit =
     (let X_train = transformRecords rt t (data (train dataSplit))
      in case transformTargets rt t (data (train dataSplit)) of
           Inl err \<Rightarrow> Inl err
         | Inr y_train \<Rightarrow>
             (if length (data (test dataSplit)) > 0
              then (let X_test = transformRecords rt t (data (test dataSplit))
                    in case transformTargets rt t (data (test dataSplit)) of
                         Inl err \<Rightarrow> Inl err
                       | Inr y_test \<Rightarrow> Inr (X_train, y_train, Some (X_test, y_test)))
              else Inr (X_train, y_train, None)))"

subsection \<open>Fitting\<close>

definition startsWith :: "string \<Rightarrow> string \<Rightarrow> bool" where
  "startsWith s p = (take (length p) s = p)"

definition shouldUseOneVsRest :: "('m, 'e) Trainer \<Rightarrow> bool" where
  "shouldUseOneVsRest t =
     (if Trainer.taskType t = regression then False
      else isMultiClass t
           \<and> \<not> (case XgbParams.objective (Trainer.xgbParams t) of
                  None \<Rightarrow> False
                | Some ob \<Rightarrow> startsWith ob ''multi:''))"

definition configureXgbParams :: "('m, 'e) Trainer \<Rightarrow> XgbParams" where
  "configureXgbParams t =
     (let params = Trainer.xgbParams t
      in if Trainer.taskType t = classification
         then (if isMultiClass t \<and> length (Trainer.classes t) > 2
               then params\<lparr>XgbParams.objective := Some (str_or (XgbParams.objective params) ''multi:softprob''),
                          num_class := Some (real (length (Trainer.classes t)))\<rparr>
               else params\<lparr>XgbParams.objective := Some (str_or (XgbParams.objective params) ''binary:logistic'')\<rparr>)
         else params\<lparr>XgbParams.objective := Some (str_or (XgbParams.objective params) ''reg:squarederror''),
                    num_class := None\<rparr>)"

text \<open>The parameter object built in \<^verbatim>\<open>trainSingleModel\<close> and, with the same text, in
  \<^verbatim>\<open>performCrossValidation\<close>.\<close>

definition singleModelParams :: "bool \<Rightarrow> XgbParams \<Rightarrow> XGBoostParams" where
  "singleModelParams isRegression xp =
     \<lparr>learningRate = num_or (eta xp) (if isRegression then 0.05 else 0.1),
      maxDepth = num_or (max_depth xp) (if isRegression then 5 else 6),
      numRounds = num_or (num_boost_round xp) (if isRegression then 100 else 50),
      XGBoostParams.objective =
        str_or (XgbParams.objective xp) (if isRegression then ''reg:squarederror'' else ''binary:logistic''),
      evalMetric = str_or (eval_metric xp) (if isRegression then ''rmse'' else ''auc''),
      XGBoostParams.seed = num_or (XgbParams.seed xp) 42,
      minChildWeight = num_or (min_child_weight xp) 1,
      XGBoostParams.booster = str_or (XgbParams.booster xp) ''gbtree'',
      XGBoostParams.subsample = num_or (XgbParams.subsample xp) (if isRegression then 0.8 else 1.0),
      colsampleBytree = num_or (colsample_bytree xp) (if isRegression then 0.8 else 1.0),
      XGBoostParams.verbosity = num_or (XgbParams.verbosity xp) 1,
      XGBoostParams.gamma = num_or (XgbParams.gamma xp) 0,
      XGBoostParams.alpha = num_or (XgbParams.alpha xp) 0,
      XGBoostParams.lambda = num_or (XgbParams.lambda xp) 1,
      XGBoostParams.nthread = num_or (XgbParams.nthread xp) (- 1)\<rparr>"

text \<open>The parameter object built in \<^verbatim>\<open>trainOneVsRest\<close>.\<close>

definition oneVsRestParams :: "XgbParams \<Rightarrow> XGBoostParams" where
  "oneVsRestParams xp =
     \<lparr>learningRate = num_or (eta xp) 0.1,
      maxDepth = num_or (max_depth xp) 6,
      numRounds = num_or (num_boost_round xp) 50,
      XGBoostParams.objective = ''binary:logistic'',
      evalMetric = str_or (eval_metric xp) ''auc'',
      XGBoostParams.seed = num_or (XgbParams.seed xp) 42,
      minChildWeight = num_or (min_child_weight xp) 1,
      XGBoostParams.booster = str_or (XgbParams.booster xp) ''gbtree'',
      XGBoostParams.subsample = num_or (XgbParams.subsample xp) 1.0,
      colsampleBytree = num_or (colsample_bytree xp) 1.0,
      XGBoostParams.verbosity = num_or (XgbParams.verbosity xp) 1,
      XGBoostParams.gamma = num_or (XgbParams.gamma xp) 0,
      XGBoostParams.alpha = num_or (XgbParams.alpha xp) 0,
      XGBoostParams.lambda = num_or (XgbParams.lambda xp) 1,
      XGBoostParams.nthread = num_or (XgbParams.nthread xp) (- 1)\<rparr>"

definition trainSingleModel ::
    "('m, 'j) XGBoost \<Rightarrow> ('m, 'e) Trainer \<Rightarrow> jsnum list list \<Rightarrow> jsnum list \<Rightarrow> XgbParams \<Rightarrow> ('m, 'e) Trainer" where
  "trainSingleModel lib t X_train y_train xp =
     t\<lparr>Trainer.model := Some (fit lib (singleModelParams (Trainer.taskType t = regression) xp) X_train y_train),
       Trainer.isOneVsRest := False\<rparr>"

text \<open>The labels of the binary problem for the class with index \<open>classIdx\<close>.\<close>

definition binaryLabels :: "nat \<Rightarrow> jsnum list \<Rightarrow> jsnum list" where
  "binaryLabels classIdx y_train =
     map (\<lambda>label. if js_eq label (Num (real classIdx)) then Num 1 else Num 0) y_train"

definition trainOneVsRest ::
    "('m, 'j) XGBoost \<Rightarrow> ('m, 'e) Trainer \<Rightarrow> jsnum list list \<Rightarrow> jsnum list \<Rightarrow> XgbParams \<Rightarrow> ('m, 'e) Trainer" where
  "trainOneVsRest lib t X_train y_train xp =
     fold (\<lambda>classIdx t'.
             (let className = Trainer.classes t ! classIdx;
                  xgb = fit lib (oneVsRestParams xp) X_train (binaryLabels classIdx y_train)
              in t'\<lparr>Trainer.oneVsRestModels := AList.update className xgb (Trainer.oneVsRestModels t')\<rparr>))
          [0..<length (Trainer.classes t)]
          (t\<lparr>Trainer.isOneVsRest := True\<rparr>)"

subsection \<open>Cross-validation\<close>

text \<open>The score of one fold from the predictions and the encoded targets of its test slice:
  the share of predictions that, thresholded at \<open>0.5\<close>, equal the class index; or the root of
  the mean squared error.\<close>

definition foldScore :: "TaskType \<Rightarrow> jsnum list \<Rightarrow> jsnum list \<Rightarrow> jsnum" where
  "foldScore tt predictions y_test =
     (if tt = classification
      then (let correct = length (filter (\<lambda>(pred, actual).
                                             js_eq (if js_less (Num 0.5) pred then Num 1 else Num 0) actual)
                                          (zip predictions y_test))
            in js_div (Num (real correct)) (Num (real (length predictions))))
      else (let mse = js_div (foldl (\<lambda>sum (pred, actualVal).
                                       js_add sum (js_mul (js_sub pred actualVal) (js_sub pred actualVal)))
                                    (Num 0) (zip predictions y_test))
                             (Num (real (length predictions)))
            in js_sqrt mse))"

text \<open>The test slice and the training rest of fold number \<open>k\<close>.\<close>

definition foldTestData :: "RawDataRecord list \<Rightarrow> int \<Rightarrow> int \<Rightarrow> RawDataRecord list" where
  "foldTestData ds folds k =
     (let foldSize = int (length ds) div folds;
          testStart = k * foldSize;
          testEnd = (if k = folds - 1 then int (length ds) else testStart + foldSize)
      in js_slice testStart testEnd ds)"

definition foldTrainData :: "RawDataRecord list \<Rightarrow> int \<Rightarrow> int \<Rightarrow> RawDataRecord list" where
  "foldTrainData ds folds k =
     (let foldSize = int (length ds) div folds;
          testStart = k * foldSize;
          testEnd = (if k = folds - 1 then int (length ds) else testStart + foldSize)
      in js_slice 0 testStart ds @ js_slice testEnd (int (length ds)) ds)"

definition crossValidationFold ::
    "('m, 'j) XGBoost \<Rightarrow> runtime \<Rightarrow> ('m, 'e) Trainer \<Rightarrow> RawDataRecord list \<Rightarrow> int \<Rightarrow> int \<Rightarrow> error + jsnum" where
  "crossValidationFold lib rt t ds folds k =
     (let testData = foldTestData ds folds k;
          trainData = foldTrainData ds folds k;
          X_train = transformRecords rt t trainData
      in case transformTargets rt t trainData of
           Inl err \<Rightarrow> Inl err
         | Inr y_train \<Rightarrow>
             (let X_test = transformRecords rt t testData
              in case transformTargets rt t testData of
                   Inl err \<Rightarrow> Inl err
                 | Inr y_test \<Rightarrow>
                     (let params = singleModelParams (Trainer.taskType t = regression) (configureXgbParams t);
                          tempModel = fit lib params X_train y_train;
                          predictions = map (predictSingle lib tempModel) X_test
                      in Inr (foldScore (Trainer.taskType t) predictions y_test))))"

text \<open>The fold count \<^verbatim>\<open>config.nFolds || 5\<close>.\<close>

definition foldCount :: "TrainingConfig \<Rightarrow> int" where
  "foldCount config = (case nFolds config of None \<Rightarrow> 5 | Some n \<Rightarrow> if n = 0 then 5 else n)"

definition performCrossValidation ::
    "('m, 'j) XGBoost \<Rightarrow> runtime \<Rightarrow> ('m, 'e) Trainer \<Rightarrow> TrainingConfig \<Rightarrow> error + ('m, 'e) Trainer" where
  "performCrossValidation lib rt t config =
     (case dataset t of
        None \<Rightarrow> Inr t
      | Some ds \<Rightarrow>
          if useCrossValidation config \<noteq> Some True then Inr t
          else
            (case mapE (crossValidationFold lib rt t (data ds) (foldCount config))
                       (map int [0..<nat (foldCount config)]) of
               Inl err \<Rightarrow> Inl err
             | Inr scores \<Rightarrow>
                 Inr (case trainingMetrics t of
                        Some tm \<Rightarrow> t\<lparr>trainingMetrics := Some (tm\<lparr>crossValidationScores := Some scores\<rparr>)\<rparr>
                      | None \<Rightarrow> t)))"

subsection \<open>train, save and load\<close>

text \<open>
  \<^verbatim>\<open>train(config)\<close>. When a step throws, the error is the result; the partly updated
  trainer that the source leaves behind in that case is not modelled.
\<close>

definition train ::
    "('m, 'j) XGBoost \<Rightarrow> runtime \<Rightarrow> ('m, 'e) TrainEnv \<Rightarrow> ('m, 'e) Trainer \<Rightarrow> TrainingConfig
       \<Rightarrow> error + ('m, 'e) Trainer" where
  "train lib rt env t config =
     (case dataset t of
        None \<Rightarrow> Inl NoDataLoaded
      | Some ds \<Rightarrow>
          (let xp = configureXgbParams t;
               dataSplit = splitData (Math_random env) ds config
           in case transformFeatures rt t dataSplit of
                Inl err \<Rightarrow> Inl err
              | Inr (X_train, y_train, held_out) \<Rightarrow>
                  (let t1 = (if isMultiClass t \<and> shouldUseOneVsRest t
                             then trainOneVsRest lib t X_train y_train xp
                             else trainSingleModel lib t X_train y_train xp);
                       t2 = (case held_out of
                               Some (X_test, y_test) \<Rightarrow>
                                 t1\<lparr>trainingMetrics :=
                                      Some \<lparr>evaluation = evaluateModel env t1 X_test y_test,
                                            crossValidationScores = None\<rparr>\<rparr>
                             | None \<Rightarrow> t1)
                   in case (if useCrossValidation config = Some True
                            then performCrossValidation lib rt t2 config else Inr t2) of
                        Inl err \<Rightarrow> Inl err
                      | Inr t3 \<Rightarrow> Inr (t3\<lparr>trainedAt := Some (timestamp env)\<rparr>))))"

definition getModelMetadata :: "('m, 'e) Trainer \<Rightarrow> error + 'e ModelMetadata" where
  "getModelMetadata t =
     (case trainedAt t of
        None \<Rightarrow> Inl ModelNotTrainedYet
      | Some ts \<Rightarrow>
          (let md = \<lparr>version = ''1.0.0'',
                     createdAt = ts,
                     ModelMetadata.categoricalFeatures = Trainer.categoricalFeatures t,
                     ModelMetadata.numericFeatures = Trainer.numericFeatures t,
                     ModelMetadata.target = Trainer.target t,
                     ModelMetadata.taskType = Trainer.taskType t,
                     ModelMetadata.classes = None,
                     numClasses = None,
                     ModelMetadata.xgbParams = Trainer.xgbParams t,
                     ModelMetadata.encoders =
                       map (\<lambda>(_, encoder).
                              \<lparr>bucketCount = bucketCount encoder, hashSeed = hashSeed encoder,
                               featureName = featureName encoder, uniqueCount = 0\<rparr>)
                           (Trainer.encoders t),
                     metrics = trainingMetrics t,
                     ModelMetadata.isOneVsRest = Trainer.isOneVsRest t,
                     ModelMetadata.targetStats = None,
                     ModelMetadata.targetNormalization = None\<rparr>
           in Inr (if Trainer.taskType t = classification
                   then md\<lparr>ModelMetadata.classes := Some (Trainer.classes t),
                           numClasses := Some (length (Trainer.classes t))\<rparr>
                   else md\<lparr>ModelMetadata.targetStats := Trainer.targetStats t,
                           ModelMetadata.targetNormalization := Trainer.targetNormalization t\<rparr>)))"

text \<open>
  The files of a model directory: \<^verbatim>\<open>metadata.json\<close>, \<^verbatim>\<open>encoders.json\<close>,
  \<^verbatim>\<open>model.json\<close> and the directory \<^verbatim>\<open>models\<close> with one file per class name; \<open>None\<close> for
  a file that is not there.
\<close>

record ('j, 'e) ModelDirectory =
  metadata_json :: "'e ModelMetadata option"
  encoders_json :: "HashEncoder list option"
  model_json :: "'j option"
  models_dir :: "(string \<times> 'j) list option"

text \<open>
  Writing a number as JSON and reading it back: \<open>NaN\<close> and the infinities are written as
  \<^verbatim>\<open>null\<close>, which the arithmetic of \<^verbatim>\<open>predictRegression\<close> then reads as \<open>0\<close>. The other
  fields of the metadata that the model reads are strings, integers and booleans.
\<close>

fun json_number :: "jsnum \<Rightarrow> jsnum" where
  "json_number (Num x) = Num x"
| "json_number _ = Num 0"

definition json_bounds :: "Bounds \<Rightarrow> Bounds" where
  "json_bounds b = \<lparr>norm_min = json_number (norm_min b), norm_max = json_number (norm_max b)\<rparr>"

definition json_metadata :: "'e ModelMetadata \<Rightarrow> 'e ModelMetadata" where
  "json_metadata md =
     md\<lparr>ModelMetadata.targetStats := map_option json_bounds (ModelMetadata.targetStats md),
        ModelMetadata.targetNormalization := map_option json_bounds (ModelMetadata.targetNormalization md)\<rparr>"

text \<open>\<^verbatim>\<open>save(directory)\<close> into a directory that holds no files yet.\<close>

definition save :: "('m, 'j) XGBoost \<Rightarrow> ('m, 'e) Trainer \<Rightarrow> error + ('j, 'e) ModelDirectory" where
  "save lib t =
     (if Trainer.model t = None \<and> length (Trainer.oneVsRestModels t) = 0 then Inl NoTrainedModel
      else
        (let dir0 = \<lparr>metadata_json = None, encoders_json = None, model_json = None, models_dir = None\<rparr>;
             dir1 = (if Trainer.isOneVsRest t
                     then dir0\<lparr>models_dir :=
                                 Some (map (\<lambda>(className, xgb). (className, toJSON lib xgb))
                                           (Trainer.oneVsRestModels t))\<rparr>
                     else (case Trainer.model t of
                             Some xgb \<Rightarrow> dir0\<lparr>model_json := Some (toJSON lib xgb)\<rparr>
                           | None \<Rightarrow> dir0));
             dir2 = dir1\<lparr>encoders_json := Some (map (\<lambda>(_, encoder). getConfig encoder) (Trainer.encoders t))\<rparr>
         in case getModelMetadata t of
              Inl err \<Rightarrow> Inl err
            | Inr md \<Rightarrow> Inr (dir2\<lparr>metadata_json := Some (json_metadata md)\<rparr>)))"

text \<open>\<^verbatim>\<open>Model.load(directory)\<close> on a directory that exists.\<close>

definition load :: "('m, 'j) XGBoost \<Rightarrow> ('j, 'e) ModelDirectory \<Rightarrow> error + ('m, 'e) Model" where
  "load lib dir =
     (case metadata_json dir of
        None \<Rightarrow> Inl MetadataNotFound
      | Some md \<Rightarrow>
          (case new_Model md of
             Inl err \<Rightarrow> Inl err
           | Inr m \<Rightarrow>
               if ModelMetadata.isOneVsRest md
               then (case models_dir dir of
                       None \<Rightarrow> Inl OneVsRestDirNotFound
                     | Some files \<Rightarrow>
                         (let m1 = fold (\<lambda>className m'.
                                           (case map_of files className of
                                              Some j \<Rightarrow>
                                                m'\<lparr>Model.oneVsRestModels :=
                                                     AList.update className (fromJSON lib j)
                                                       (Model.oneVsRestModels m')\<rparr>
                                            | None \<Rightarrow> m'))
                                        (case ModelMetadata.classes md of None \<Rightarrow> [] | Some cs \<Rightarrow> cs)
                                        m
                          in if length (Model.oneVsRestModels m1) = 0 then Inl NoOneVsRestModels
                             else Inr m1))
               else (case model_json dir of
                       None \<Rightarrow> Inl ModelFileNotFound
                     | Some j \<Rightarrow> Inr (m\<lparr>Model.model := Some (fromJSON lib j)\<rparr>))))"

section \<open>Auxiliary notions\<close>

text \<open>The spec computed for one categorical feature.\<close>

definition specOf :: "runtime \<Rightarrow> RawDataRecord list \<Rightarrow> string \<Rightarrow> FeatureSpec" where
  "specOf rt ds f = \<lparr>spec_k = int (length (uniqueValues rt ds f)),
                     spec_bucketCount = calculateBucketCount (int (length (uniqueValues rt ds f)))\<rparr>"

text \<open>Every stored encoder has a positive bucket count.\<close>

definition positiveEncoders :: "(string \<times> HashEncoder) list \<Rightarrow> bool" where
  "positiveEncoders encs = list_all (\<lambda>(name, e). 0 < bucketCount e) encs"

text \<open>The width of a categorical feature's slot in the feature vector.\<close>

definition slotWidth :: "(string \<times> HashEncoder) list \<Rightarrow> string \<Rightarrow> int" where
  "slotWidth encs f = (case map_of encs f of Some e \<Rightarrow> bucketCount e | None \<Rightarrow> 0)"

text \<open>The encoders are stored under distinct names, each under its own feature name and
  with a positive bucket count.\<close>

definition wellKeyed :: "(string \<times> HashEncoder) list \<Rightarrow> bool" where
  "wellKeyed encs =
     (distinct (map fst encs) \<and> list_all (\<lambda>(name, e). featureName e = name \<and> 0 < bucketCount e) encs)"


text \<open>Every sublist of the records \<open>ds\<close> has targets that \<^verbatim>\<open>transformTargets\<close> accepts.\<close>

definition targetsTransform :: "runtime \<Rightarrow> ('m, 'e) Trainer \<Rightarrow> RawDataRecord list \<Rightarrow> bool" where
  "targetsTransform rt t ds =
     (\<forall>records. set records \<subseteq> set ds \<longrightarrow> (\<exists>ys. transformTargets rt t records = Inr ys))"

section \<open>Example values\<close>

text \<open>The values at which the closed instances below evaluate the definitions.\<close>

definition no_params :: XgbParams where
  "no_params = \<lparr>XgbParams.objective = None, max_depth = None, eta = None, num_class = None,
      num_boost_round = None, min_child_weight = None, XgbParams.gamma = None,
      XgbParams.subsample = None, colsample_bytree = None, XgbParams.alpha = None,
      XgbParams.lambda = None, XgbParams.seed = None, XgbParams.nthread = None,
      XgbParams.verbosity = None, XgbParams.booster = None, eval_metric = None\<rparr>"

text \<open>
  An instance of the library interface: a fitted model is the triple it was fitted from,
  it predicts \<open>0.5\<close> everywhere, and its JSON form is the model itself.
\<close>

type_synonym fitted = "XGBoostParams \<times> jsnum list list \<times> jsnum list"

definition recording_library :: "(fitted, fitted) XGBoost" where
  "recording_library =
     \<lparr>fit = (\<lambda>params X y. (params, X, y)), predictSingle = (\<lambda>m x. Num (1 / 2)),
      toJSON = id, fromJSON = id\<rparr>"

text \<open>An environment whose random numbers are all \<open>0\<close> and which keeps no evaluation.\<close>

definition example_env :: "(fitted, unit) TrainEnv" where
  "example_env = \<lparr>Math_random = (\<lambda>i. 0), timestamp = ''2026-01-01T00:00:00.000Z'',
                   evaluateModel = (\<lambda>t X y. ())\<rparr>"

text \<open>A training configuration with the defaults, except that the split does not shuffle.\<close>

definition plain_config :: TrainingConfig where
  "plain_config = \<lparr>useCrossValidation = None, nFolds = None, testRatio = None, shuffle = Some False\<rparr>"

text \<open>Two records whose categorical values differ only in surrounding white space.\<close>

definition tagged :: "RawDataRecord list" where
  "tagged = [[''tag'' \<mapsto> JStr '' test ''], [''tag'' \<mapsto> JStr ''test'']]"

text \<open>Two colours.\<close>

definition two_colors :: "RawDataRecord list" where
  "two_colors = [[''color'' \<mapsto> JStr ''red''], [''color'' \<mapsto> JStr ''blue'']]"

subsection \<open>A binary classification run\<close>

text \<open>
  Two sales of the same colour; the price of the first is the numeric string \<open>"5"\<close>. The
  values \<open>sales_loaded\<close>, \<open>sales_trained\<close>, \<open>sales_directory\<close> and \<open>sales_model\<close> are
  what \<open>loadRaw\<close>, \<open>train\<close>, \<open>save\<close> and \<open>load\<close> return on them, as proved below.
\<close>

definition sales_config :: TrainerConfig where
  "sales_config = \<lparr>TrainerConfig.categoricalFeatures = [''color''],
                    TrainerConfig.numericFeatures = [''price''],
                    TrainerConfig.target = ''sold'',
                    TrainerConfig.taskType = None,
                    TrainerConfig.xgbParams = no_params\<rparr>"

definition sale1 :: RawDataRecord where
  "sale1 = [''color'' \<mapsto> JStr ''red'', ''price'' \<mapsto> JStr ''5'', ''sold'' \<mapsto> JStr ''yes'']"

definition sale2 :: RawDataRecord where
  "sale2 = [''color'' \<mapsto> JStr ''red'', ''price'' \<mapsto> JNum (Num 7), ''sold'' \<mapsto> JStr ''no'']"

definition sales_data :: "RawDataRecord list" where
  "sales_data = [sale1, sale2]"

definition sales_dataset :: Dataset where
  "sales_dataset = \<lparr>data = sales_data, Dataset.categoricalFeatures = [''color''],
                     Dataset.numericFeatures = [''price''], Dataset.target = ''sold''\<rparr>"

definition sales_loaded :: "(fitted, unit) Trainer" where
  "sales_loaded =
     (new_Trainer sales_config)
       \<lparr>Trainer.encoders := [(''color'', \<lparr>bucketCount = 1, hashSeed = 42, featureName = ''color''\<rparr>)],
        Trainer.classes := [''no'', ''yes''],
        dataset := Some sales_dataset\<rparr>"

definition sales_fitted :: fitted where
  "sales_fitted =
     (singleModelParams False (no_params\<lparr>XgbParams.objective := Some ''binary:logistic''\<rparr>),
      [[Num 1, Num 0]], [Num 1])"

definition sales_trained :: "(fitted, unit) Trainer" where
  "sales_trained =
     sales_loaded
       \<lparr>Trainer.model :=
          Some sales_fitted,
        trainingMetrics := Some \<lparr>evaluation = (), crossValidationScores = None\<rparr>,
        trainedAt := Some ''2026-01-01T00:00:00.000Z''\<rparr>"

definition sales_metadata :: "unit ModelMetadata" where
  "sales_metadata =
     \<lparr>version = ''1.0.0'',
      createdAt = ''2026-01-01T00:00:00.000Z'',
      ModelMetadata.categoricalFeatures = [''color''],
      ModelMetadata.numericFeatures = [''price''],
      ModelMetadata.target = ''sold'',
      ModelMetadata.taskType = classification,
      ModelMetadata.classes = Some [''no'', ''yes''],
      numClasses = Some 2,
      ModelMetadata.xgbParams = no_params,
      ModelMetadata.encoders = [\<lparr>bucketCount = 1, hashSeed = 42, featureName = ''color'', uniqueCount = 0\<rparr>],
      metrics = Some \<lparr>evaluation = (), crossValidationScores = None\<rparr>,
      ModelMetadata.isOneVsRest = False,
      ModelMetadata.targetStats = None,
      ModelMetadata.targetNormalization = None\<rparr>"

definition sales_directory :: "(fitted, unit) ModelDirectory" where
  "sales_directory =
     \<lparr>metadata_json = Some sales_metadata,
      encoders_json = Some [\<lparr>bucketCount = 1, hashSeed = 42, featureName = ''color''\<rparr>],
      model_json = Some sales_fitted,
      models_dir = None\<rparr>"

definition sales_model :: "(fitted, unit) Model" where
  "sales_model =
     \<lparr>metadata = sales_metadata,
      Model.encoders = [(''color'', \<lparr>bucketCount = 1, hashSeed = 42, featureName = ''color''\<rparr>)],
      Model.model = Some sales_fitted,
      Model.oneVsRestModels = []\<rparr>"

text \<open>A record without a colour.\<close>

definition unpriced :: RawDataRecord where
  "unpriced = [''price'' \<mapsto> JNum (Num 50)]"





subsection \<open>A four-class run\<close>

text \<open>Five pets of four kinds, with the objective \<open>binary:logistic\<close> configured.\<close>

definition pet_config :: TrainerConfig where
  "pet_config = \<lparr>TrainerConfig.categoricalFeatures = [],
                  TrainerConfig.numericFeatures = [''weight''],
                  TrainerConfig.target = ''kind'',
                  TrainerConfig.taskType = None,
                  TrainerConfig.xgbParams = no_params\<lparr>XgbParams.objective := Some ''binary:logistic''\<rparr>\<rparr>"

definition pet :: "string \<Rightarrow> real \<Rightarrow> RawDataRecord" where
  "pet kind w = [''weight'' \<mapsto> JNum (Num w), ''kind'' \<mapsto> JStr kind]"

definition pet_data :: "RawDataRecord list" where
  "pet_data = [pet ''d'' 1, pet ''a'' 2, pet ''c'' 3, pet ''b'' 4, pet ''a'' 5]"

definition pet_dataset :: Dataset where
  "pet_dataset = \<lparr>data = pet_data, Dataset.categoricalFeatures = [],
                   Dataset.numericFeatures = [''weight''], Dataset.target = ''kind''\<rparr>"

definition pet_loaded :: "(fitted, unit) Trainer" where
  "pet_loaded =
     (new_Trainer pet_config)
       \<lparr>Trainer.classes := [''a'', ''b'', ''c'', ''d''], isMultiClass := True,
        dataset := Some pet_dataset\<rparr>"

definition pet_params :: XGBoostParams where
  "pet_params =
     oneVsRestParams (no_params\<lparr>XgbParams.objective := Some ''binary:logistic'', num_class := Some 4\<rparr>)"

definition pet_trained :: "(fitted, unit) Trainer" where
  "pet_trained =
     pet_loaded
       \<lparr>Trainer.isOneVsRest := True,
        Trainer.oneVsRestModels :=
          [(''a'', (pet_params, [[Num 1], [Num 2], [Num 3], [Num 4]], [Num 0, Num 1, Num 0, Num 0])),
           (''b'', (pet_params, [[Num 1], [Num 2], [Num 3], [Num 4]], [Num 0, Num 0, Num 0, Num 1])),
           (''c'', (pet_params, [[Num 1], [Num 2], [Num 3], [Num 4]], [Num 0, Num 0, Num 1, Num 0])),
           (''d'', (pet_params, [[Num 1], [Num 2], [Num 3], [Num 4]], [Num 1, Num 0, Num 0, Num 0]))],
        trainingMetrics := Some \<lparr>evaluation = (), crossValidationScores = None\<rparr>,
        trainedAt := Some ''2026-01-01T00:00:00.000Z''\<rparr>"

subsection \<open>Two regression runs\<close>

text \<open>
  Houses with one numeric feature: one run with the target values \<open>100\<close>, \<open>200\<close>, \<open>300\<close> and
  one whose targets are all \<open>100\<close>.
\<close>

definition house_config :: TrainerConfig where
  "house_config = \<lparr>TrainerConfig.categoricalFeatures = [],
                    TrainerConfig.numericFeatures = [''area''],
                    TrainerConfig.target = ''price'',
                    TrainerConfig.taskType = Some regression,
                    TrainerConfig.xgbParams = no_params\<rparr>"

definition house :: "real \<Rightarrow> real \<Rightarrow> RawDataRecord" where
  "house a p = [''area'' \<mapsto> JNum (Num a), ''price'' \<mapsto> JNum (Num p)]"

definition house_data :: "RawDataRecord list" where
  "house_data = [house 1 100, house 2 200, house 3 300]"

definition flat_data :: "RawDataRecord list" where
  "flat_data = [house 1 100, house 2 100]"

definition house_dataset :: "RawDataRecord list \<Rightarrow> Dataset" where
  "house_dataset ds = \<lparr>data = ds, Dataset.categoricalFeatures = [],
                        Dataset.numericFeatures = [''area''], Dataset.target = ''price''\<rparr>"

definition house_loaded :: "RawDataRecord list \<Rightarrow> real \<Rightarrow> real \<Rightarrow> (fitted, unit) Trainer" where
  "house_loaded ds lo hi =
     (new_Trainer house_config)
       \<lparr>Trainer.targetStats := Some \<lparr>norm_min = Num lo, norm_max = Num hi\<rparr>,
        Trainer.targetNormalization := Some \<lparr>norm_min = Num lo, norm_max = Num hi\<rparr>,
        dataset := Some (house_dataset ds)\<rparr>"

definition house_params :: XGBoostParams where
  "house_params = singleModelParams True (no_params\<lparr>XgbParams.objective := Some ''reg:squarederror''\<rparr>)"

definition house_trained ::
    "RawDataRecord list \<Rightarrow> real \<Rightarrow> real \<Rightarrow> fitted \<Rightarrow> (fitted, unit) Trainer" where
  "house_trained ds lo hi xgb =
     (house_loaded ds lo hi)
       \<lparr>Trainer.model := Some xgb,
        trainingMetrics := Some \<lparr>evaluation = (), crossValidationScores = None\<rparr>,
        trainedAt := Some ''2026-01-01T00:00:00.000Z''\<rparr>"




section \<open>Properties of HashEncoder\<close>

lemma trim_test: "trim '' test '' = ''test''"
  by (simp add: trim_def js_whitespace_def)

lemma new_HashEncoder_positive:
  "new_HashEncoder n sd nm = Inr e \<Longrightarrow> 0 < bucketCount e \<and> bucketCount e = n"
  by (auto simp: new_HashEncoder_def split: if_splits)

lemma bucketIndex_less:
  "0 < bucketCount e \<Longrightarrow> bucketIndex rt e v < nat (bucketCount e)"
  by (simp add: bucketIndex_def Let_def nat_less_iff)

lemma length_encode: "length (encode rt e v) = nat (bucketCount e)"
  by (simp add: encode_def)

lemma encode_nth:
  "j < nat (bucketCount e) \<Longrightarrow> encode rt e v ! j = (if j = bucketIndex rt e v then 1 else 0)"
  by (simp add: encode_def nth_list_update)

lemma encode_eq_iff:
  assumes "0 < bucketCount e"
  shows "encode rt e v = encode rt e w \<longleftrightarrow> bucketIndex rt e v = bucketIndex rt e w"
proof
  assume eq: "encode rt e v = encode rt e w"
  have lt: "bucketIndex rt e v < nat (bucketCount e)"
    using assms by (rule bucketIndex_less)
  have "encode rt e v ! bucketIndex rt e v = 1"
    using lt by (simp add: encode_nth)
  then have "encode rt e w ! bucketIndex rt e v = 1"
    using eq by simp
  then show "bucketIndex rt e v = bucketIndex rt e w"
    using lt by (simp add: encode_nth split: if_splits)
next
  assume "bucketIndex rt e v = bucketIndex rt e w"
  then show "encode rt e v = encode rt e w"
    by (simp add: encode_def)
qed

text \<open>
  C4. An encoder constructed with a positive bucket count \<open>n\<close> exists, and for every input
  value its \<open>encode\<close> returns a vector of length exactly \<open>n\<close> in which the entry at the
  bucket index is \<open>1.0\<close> and every other entry is \<open>0.0\<close>.
\<close>

theorem encode_one_hot:
  assumes "0 < n"
  shows "\<exists>e. new_HashEncoder n sd nm = Inr e
           \<and> int (length (encode rt e v)) = n
           \<and> (\<exists>i < length (encode rt e v).
                 \<forall>j < length (encode rt e v). encode rt e v ! j = (if j = i then 1 else 0))"
proof -
  obtain e where e: "new_HashEncoder n sd nm = Inr e"
    using assms by (simp add: new_HashEncoder_def)
  then have pos: "0 < bucketCount e" and bc: "bucketCount e = n"
    using new_HashEncoder_positive by blast+
  have len: "int (length (encode rt e v)) = n"
    using pos bc by (simp add: length_encode)
  have idx: "bucketIndex rt e v < length (encode rt e v)"
    using pos by (simp add: length_encode bucketIndex_less)
  have "\<forall>j < length (encode rt e v). encode rt e v ! j = (if j = bucketIndex rt e v then 1 else 0)"
    by (simp add: length_encode encode_nth)
  with e len idx show ?thesis by blast
qed

theorem encode_one_hot_witness:
  "0 < (4::int)
   \<and> (\<exists>e. new_HashEncoder 4 None (Some ''color'') = Inr e
         \<and> int (length (encode ref_runtime e (JStr ''red''))) = 4
         \<and> (\<exists>i < length (encode ref_runtime e (JStr ''red'')).
               \<forall>j < length (encode ref_runtime e (JStr ''red'')).
                  encode ref_runtime e (JStr ''red'') ! j = (if j = i then 1 else 0)))"
  using encode_one_hot [of 4 None "Some ''color''" ref_runtime "JStr ''red''"] by simp

text \<open>
  C8, the counterexample. With a single bucket every value is encoded as the same vector:
  \<open>true\<close> and \<open>false\<close>, and likewise \<open>NaN\<close> and \<open>Infinity\<close>, are not told apart.
\<close>

theorem encode_collision_counterexample:
  "new_HashEncoder 1 (Some 42) (Some ''flag'')
     = Inr \<lparr>bucketCount = 1, hashSeed = 42, featureName = ''flag''\<rparr>
   \<and> encode ref_runtime \<lparr>bucketCount = 1, hashSeed = 42, featureName = ''flag''\<rparr> (JBool True)
     = encode ref_runtime \<lparr>bucketCount = 1, hashSeed = 42, featureName = ''flag''\<rparr> (JBool False)
   \<and> encode ref_runtime \<lparr>bucketCount = 1, hashSeed = 42, featureName = ''flag''\<rparr> (JNum NaN)
     = encode ref_runtime \<lparr>bucketCount = 1, hashSeed = 42, featureName = ''flag''\<rparr> (JNum PosInfinity)"
  by (simp add: new_HashEncoder_def encode_def bucketIndex_def)

text \<open>
  C8, amended. For every constructed encoder, \<open>" test "\<close> and \<open>"test"\<close> are encoded alike,
  and so are \<open>null\<close> and \<open>undefined\<close>; \<open>true\<close> and \<open>false\<close>, and \<open>NaN\<close>, \<open>Infinity\<close>
  and \<open>-Infinity\<close>, are normalised to pairwise distinct tokens; two values are encoded as
  different vectors exactly when their tokens fall into different buckets, which never
  happens with a single bucket.
\<close>

theorem encode_normalization:
  assumes "new_HashEncoder n sd nm = Inr e"
  shows "encode rt e (JStr '' test '') = encode rt e (JStr ''test'')
       \<and> encode rt e JNull = encode rt e JUndefined
       \<and> normalizeValue rt (JBool True) \<noteq> normalizeValue rt (JBool False)
       \<and> distinct [normalizeValue rt (JNum NaN), normalizeValue rt (JNum PosInfinity),
                   normalizeValue rt (JNum NegInfinity)]
       \<and> (encode rt e v = encode rt e w \<longleftrightarrow> bucketIndex rt e v = bucketIndex rt e w)
       \<and> (bucketCount e = 1 \<longrightarrow> encode rt e v = encode rt e w)"
proof -
  have pos: "0 < bucketCount e"
    using assms new_HashEncoder_positive by blast
  have a: "encode rt e (JStr '' test '') = encode rt e (JStr ''test'')"
    by (simp add: encode_def bucketIndex_def trim_def js_whitespace_def)
  have b: "encode rt e JNull = encode rt e JUndefined"
    by (simp add: encode_def bucketIndex_def)
  have c: "encode rt e v = encode rt e w \<longleftrightarrow> bucketIndex rt e v = bucketIndex rt e w"
    using pos by (rule encode_eq_iff)
  have d: "bucketCount e = 1 \<longrightarrow> encode rt e v = encode rt e w"
    by (simp add: encode_def bucketIndex_def)
  show ?thesis using a b c d by simp
qed

theorem encode_normalization_witness:
  "new_HashEncoder 4 None (Some ''flag'') = Inr \<lparr>bucketCount = 4, hashSeed = 42, featureName = ''flag''\<rparr>
   \<and> encode ref_runtime \<lparr>bucketCount = 4, hashSeed = 42, featureName = ''flag''\<rparr> (JStr '' test '')
     = encode ref_runtime \<lparr>bucketCount = 4, hashSeed = 42, featureName = ''flag''\<rparr> (JStr ''test'')
   \<and> encode ref_runtime \<lparr>bucketCount = 4, hashSeed = 42, featureName = ''flag''\<rparr> JNull
     = encode ref_runtime \<lparr>bucketCount = 4, hashSeed = 42, featureName = ''flag''\<rparr> JUndefined"
proof -
  have h: "new_HashEncoder 4 None (Some ''flag'') = Inr \<lparr>bucketCount = 4, hashSeed = 42, featureName = ''flag''\<rparr>"
    by (simp add: new_HashEncoder_def)
  show ?thesis using h encode_normalization [OF h, of ref_runtime] by simp
qed

section \<open>Properties of FeatureAnalyzer\<close>

lemma fold_set_add:
  "distinct acc \<Longrightarrow>
     distinct (fold (\<lambda>x s. set_add s (g x)) xs acc)
     \<and> set (fold (\<lambda>x s. set_add s (g x)) xs acc) = set acc \<union> g ` set xs"
proof (induction xs arbitrary: acc)
  case Nil
  then show ?case by simp
next
  case (Cons x xs)
  have d: "distinct (set_add acc (g x))"
    using Cons.prems by (simp add: set_add_def)
  have s: "set (set_add acc (g x)) = insert (g x) (set acc)"
    by (auto simp: set_add_def)
  show ?case
    using Cons.IH [OF d] s by auto
qed

lemma length_uniqueValues:
  "length (uniqueValues rt ds f) = card ((\<lambda>record. categoryKey rt record f) ` set ds)"
proof -
  have "distinct (uniqueValues rt ds f)"
    and "set (uniqueValues rt ds f) = (\<lambda>record. categoryKey rt record f) ` set ds"
    using fold_set_add [of "[]" "\<lambda>record. categoryKey rt record f" ds]
    by (simp_all add: uniqueValues_def)
  then show ?thesis
    by (metis distinct_card)
qed

lemma uniqueValues_nonempty: "ds \<noteq> [] \<Longrightarrow> 1 \<le> length (uniqueValues rt ds f)"
proof -
  assume "ds \<noteq> []"
  then have "(\<lambda>record. categoryKey rt record f) ` set ds \<noteq> {}" by simp
  then have "0 < card ((\<lambda>record. categoryKey rt record f) ` set ds)"
    by (simp add: card_gt_0_iff)
  then show ?thesis by (simp add: length_uniqueValues)
qed

lemma map_of_fold_specs:
  "map_of (fold (\<lambda>f specs. AList.update f (specOf rt ds f) specs) cats init) f
     = (if f \<in> set cats then Some (specOf rt ds f) else map_of init f)"
  by (induction cats arbitrary: init) (auto simp: update_conv')

lemma map_of_analyzeCategoricalFeatures:
  "map_of (analyzeCategoricalFeatures rt ds cats) f
     = (if f \<in> set cats then Some (specOf rt ds f) else None)"
  using map_of_fold_specs [of rt ds cats "[]" f]
  by (simp add: analyzeCategoricalFeatures_def specOf_def Let_def)

lemma analyzeFeatures_Inr:
  assumes "analyzeFeatures rt ds cats nums tgt = Inr res"
  shows "ds \<noteq> []" and "categoricalSpecs res = analyzeCategoricalFeatures rt ds cats"
  using assms
  by (auto simp: analyzeFeatures_def validateInputData_def split: option.splits list.splits)

lemma calculate_eq_suggest: "1 \<le> k \<Longrightarrow> calculateBucketCount k = suggestBucketCount k r"
  by (auto simp: calculateBucketCount_def suggestBucketCount_def)

lemma categoryKey_cases:
  "categoryKey rt record f
     = (case getProp record f of
          JNull \<Rightarrow> ''__NULL__'' | JUndefined \<Rightarrow> ''__NULL__'' | v \<Rightarrow> js_String rt v)"
  by (simp add: categoryKey_def Let_def split: jsval.splits)

text \<open>
  C9. \<open>suggestBucketCount k\<close> is \<open>k * k\<close> for \<open>2 \<le> k \<le> 1000\<close>, \<open>20 * k\<close> for \<open>k > 1000\<close>
  and \<open>1\<close> for \<open>k = 0\<close> and \<open>k = 1\<close>, whatever its second argument; and the bucket count
  that \<open>analyzeFeatures\<close> gives a categorical feature is \<open>suggestBucketCount\<close> of the
  feature's unique count.
\<close>

theorem bucket_sizing_rule:
  "(2 \<le> k \<and> k \<le> 1000 \<longrightarrow> suggestBucketCount k r = k * k)
   \<and> (1000 < k \<longrightarrow> suggestBucketCount k r = 20 * k)
   \<and> suggestBucketCount 0 r = 1 \<and> suggestBucketCount 1 r = 1
   \<and> suggestBucketCount 500 r = 250000
   \<and> suggestBucketCount 1000 r = 1000000
   \<and> suggestBucketCount 1001 r = 20020
   \<and> (analyzeFeatures rt ds cats nums tgt = Inr res \<and> f \<in> set cats \<longrightarrow>
        (\<exists>spec. map_of (categoricalSpecs res) f = Some spec
               \<and> spec_bucketCount spec = suggestBucketCount (spec_k spec) r))"
proof -
  have s: "(2 \<le> k \<and> k \<le> 1000 \<longrightarrow> suggestBucketCount k r = k * k)
   \<and> (1000 < k \<longrightarrow> suggestBucketCount k r = 20 * k)
   \<and> suggestBucketCount 0 r = 1 \<and> suggestBucketCount 1 r = 1
   \<and> suggestBucketCount 500 r = 250000
   \<and> suggestBucketCount 1000 r = 1000000
   \<and> suggestBucketCount 1001 r = 20020"
    by (simp add: suggestBucketCount_def)
  have a: "\<exists>spec. map_of (categoricalSpecs res) f = Some spec
               \<and> spec_bucketCount spec = suggestBucketCount (spec_k spec) r"
    if h: "analyzeFeatures rt ds cats nums tgt = Inr res" and f: "f \<in> set cats"
  proof -
    have ne: "ds \<noteq> []" and cs: "categoricalSpecs res = analyzeCategoricalFeatures rt ds cats"
      using analyzeFeatures_Inr [OF h] by simp_all
    have m: "map_of (categoricalSpecs res) f = Some (specOf rt ds f)"
      using f cs by (simp add: map_of_analyzeCategoricalFeatures)
    have "1 \<le> int (length (uniqueValues rt ds f))"
      using uniqueValues_nonempty [OF ne, of rt f] by simp
    then have "spec_bucketCount (specOf rt ds f) = suggestBucketCount (spec_k (specOf rt ds f)) r"
      by (simp add: specOf_def calculate_eq_suggest)
    with m show ?thesis by blast
  qed
  show ?thesis using s a by blast
qed

lemma analyze_colors:
  "analyzeFeatures ref_runtime two_colors [''color''] [] None
     = Inr \<lparr>categoricalSpecs = [(''color'', \<lparr>spec_k = 2, spec_bucketCount = 4\<rparr>)], targetClasses = []\<rparr>"
  by (simp add: two_colors_def analyzeFeatures_def validateInputData_def analyzeCategoricalFeatures_def
        uniqueValues_def set_add_def categoryKey_def getProp_def calculateBucketCount_def)

theorem bucket_sizing_rule_witness:
  "(2 \<le> (500::int) \<and> (500::int) \<le> 1000) \<and> suggestBucketCount 500 None = 500 * 500
   \<and> (1000::int) < 1001 \<and> suggestBucketCount 1001 None = 20 * 1001
   \<and> analyzeFeatures ref_runtime two_colors [''color''] [] None
     = Inr \<lparr>categoricalSpecs = [(''color'', \<lparr>spec_k = 2, spec_bucketCount = 4\<rparr>)], targetClasses = []\<rparr>
   \<and> ''color'' \<in> set [''color'']
   \<and> (\<exists>spec. map_of [(''color'', \<lparr>spec_k = 2, spec_bucketCount = 4\<rparr>)] ''color'' = Some spec
            \<and> spec_bucketCount spec = suggestBucketCount (spec_k spec) None)"
  using bucket_sizing_rule [of 500 None ref_runtime
          two_colors "[''color'']" "[]" None
          "\<lparr>categoricalSpecs = [(''color'', \<lparr>spec_k = 2, spec_bucketCount = 4\<rparr>)], targetClasses = []\<rparr>" "''color''"]
        bucket_sizing_rule [of 1001 None ref_runtime
          two_colors "[''color'']" "[]" None
          "\<lparr>categoricalSpecs = [(''color'', \<lparr>spec_k = 2, spec_bucketCount = 4\<rparr>)], targetClasses = []\<rparr>" "''color''"]
        analyze_colors
  by simp

text \<open>
  C3, amended. For every categorical feature of a successful analysis, the unique count is
  the number of distinct strings \<open>String(value)\<close> over the column, \<open>null\<close> and \<open>undefined\<close>
  counting as \<open>"__NULL__"\<close>; the values are not trimmed or otherwise normalised.
\<close>

theorem analyzeFeatures_unique_count:
  assumes "analyzeFeatures rt ds cats nums tgt = Inr res" and "f \<in> set cats"
  shows "\<exists>spec. map_of (categoricalSpecs res) f = Some spec
           \<and> spec_k spec
               = int (card ((\<lambda>record. case getProp record f of
                                         JNull \<Rightarrow> ''__NULL__''
                                       | JUndefined \<Rightarrow> ''__NULL__''
                                       | v \<Rightarrow> js_String rt v) ` set ds))"
proof -
  have cs: "categoricalSpecs res = analyzeCategoricalFeatures rt ds cats"
    using analyzeFeatures_Inr(2) [OF assms(1)] .
  have m: "map_of (categoricalSpecs res) f = Some (specOf rt ds f)"
    using assms(2) cs by (simp add: map_of_analyzeCategoricalFeatures)
  have "spec_k (specOf rt ds f) = int (card ((\<lambda>record. categoryKey rt record f) ` set ds))"
    by (simp add: specOf_def length_uniqueValues)
  then show ?thesis
    using m by (simp add: categoryKey_cases)
qed

lemma analyze_tagged:
  "analyzeFeatures ref_runtime tagged [''tag''] [] None
     = Inr \<lparr>categoricalSpecs = [(''tag'', \<lparr>spec_k = 2, spec_bucketCount = 4\<rparr>)], targetClasses = []\<rparr>"
  by (simp add: tagged_def analyzeFeatures_def validateInputData_def analyzeCategoricalFeatures_def
        uniqueValues_def set_add_def categoryKey_def getProp_def calculateBucketCount_def)

text \<open>
  C3, the counterexample. \<open>" test "\<close> and \<open>"test"\<close> are normalised to the same string by
  HashEncoder and are counted as two distinct values by the analysis.
\<close>

theorem unique_count_counterexample:
  "analyzeFeatures ref_runtime tagged [''tag''] [] None
     = Inr \<lparr>categoricalSpecs = [(''tag'', \<lparr>spec_k = 2, spec_bucketCount = 4\<rparr>)], targetClasses = []\<rparr>
   \<and> map (\<lambda>record. normalizeValue ref_runtime (getProp record ''tag'')) tagged = [''test'', ''test'']"
  by (simp add: analyze_tagged) (simp add: tagged_def getProp_def trim_def js_whitespace_def)

theorem analyzeFeatures_unique_count_witness:
  "analyzeFeatures ref_runtime tagged [''tag''] [] None
     = Inr \<lparr>categoricalSpecs = [(''tag'', \<lparr>spec_k = 2, spec_bucketCount = 4\<rparr>)], targetClasses = []\<rparr>
   \<and> ''tag'' \<in> set [''tag'']
   \<and> (\<exists>spec. map_of [(''tag'', \<lparr>spec_k = 2, spec_bucketCount = 4\<rparr>)] ''tag'' = Some spec
            \<and> spec_k spec
               = int (card ((\<lambda>record. case getProp record ''tag'' of
                                         JNull \<Rightarrow> ''__NULL__''
                                       | JUndefined \<Rightarrow> ''__NULL__''
                                       | v \<Rightarrow> js_String ref_runtime v) ` set tagged)))"
proof -
  have t: "''tag'' \<in> set [''tag'']" by simp
  show ?thesis
    using analyzeFeatures_unique_count [OF analyze_tagged t] analyze_tagged t by simp
qed

section \<open>The example runs, step by step\<close>

lemma example_fields:
  "Math_random example_env = (\<lambda>i. 0)"
  "timestamp example_env = ''2026-01-01T00:00:00.000Z''"
  "evaluateModel example_env = (\<lambda>t X y. ())"
  "fit recording_library = (\<lambda>params X y. (params, X, y))"
  "toJSON recording_library = id"
  "fromJSON recording_library = id"
  "predictSingle recording_library = (\<lambda>m x. Num (1 / 2))"
  "useCrossValidation plain_config = None"
  by (simp_all add: example_env_def recording_library_def plain_config_def)

lemma step_loadRaw: "loadRaw ref_runtime (new_Trainer sales_config) sales_data = Inr sales_loaded"
  by (simp add: sales_loaded_def sales_dataset_def loadRaw_def new_Trainer_def sales_config_def sales_data_def sale1_def sale2_def validateData_def
     analyzeFeatures_def validateInputData_def analyzeCategoricalFeatures_def analyzeTargetClasses_def
        uniqueValues_def set_add_def categoryKey_def getProp_def calculateBucketCount_def new_HashEncoder_def Let_def)

lemma step_split: "splitData (\<lambda>i. 0) sales_dataset plain_config
   = \<lparr>DataSplit.train = sales_dataset\<lparr>data := [sale1]\<rparr>, test = sales_dataset\<lparr>data := [sale2]\<rparr>\<rparr>"
  by (simp add: splitData_def plain_config_def num_or_def js_slice_def sales_data_def sales_dataset_def Let_def)

lemma step_features:
  "transformFeatures ref_runtime sales_loaded
      \<lparr>DataSplit.train = sales_dataset\<lparr>data := [sale1]\<rparr>, test = sales_dataset\<lparr>data := [sale2]\<rparr>\<rparr>
    = Inr ([[Num 1, Num 0]], [Num 1], Some ([[Num 1, Num 7]], [Num 0]))"
  by (simp add: transformFeatures_def transformRecords_def transformTargets_def sales_loaded_def new_Trainer_def sales_config_def sales_data_def sale1_def sale2_def encodeFeature_def
      encode_def bucketIndex_def getProp_def Trainer_numericValue_def Let_def)

lemma step_train: "train recording_library ref_runtime example_env sales_loaded plain_config = Inr sales_trained"
proof -
  have ds: "dataset sales_loaded = Some sales_dataset" by (simp add: sales_loaded_def)
  have rnd: "Math_random example_env = (\<lambda>i. 0)" by (simp add: example_env_def)
  have ovr: "\<not> isMultiClass sales_loaded" by (simp add: sales_loaded_def new_Trainer_def)
  have xp: "configureXgbParams sales_loaded = no_params\<lparr>XgbParams.objective := Some ''binary:logistic''\<rparr>"
    by (simp add: configureXgbParams_def sales_loaded_def new_Trainer_def sales_config_def no_params_def str_or_def)
  have cv: "useCrossValidation plain_config = None" by (simp add: plain_config_def)
  have env: "timestamp example_env = ''2026-01-01T00:00:00.000Z''" "evaluateModel example_env = (\<lambda>t X y. ())"
    by (simp_all add: example_env_def)
  have lib: "fit recording_library = (\<lambda>params X y. (params, X, y))" by (simp add: recording_library_def)
  have "train recording_library ref_runtime example_env sales_loaded plain_config
          = Inr (sales_loaded\<lparr>Trainer.model :=
                   Some sales_fitted,
                 Trainer.isOneVsRest := False,
                 trainingMetrics := Some \<lparr>evaluation = (), crossValidationScores = None\<rparr>,
                 trainedAt := Some ''2026-01-01T00:00:00.000Z''\<rparr>)"
    by (simp add: train_def ds rnd step_split step_features ovr xp Let_def trainSingleModel_def cv env lib sales_fitted_def)
      (simp add: sales_loaded_def new_Trainer_def sales_config_def)
  then show ?thesis
    by (simp add: sales_trained_def sales_loaded_def new_Trainer_def)
qed

lemma step_metadata: "getModelMetadata sales_trained = Inr sales_metadata"
  by (simp add: getModelMetadata_def sales_trained_def sales_loaded_def new_Trainer_def
        sales_config_def sales_metadata_def Let_def)

lemma step_save: "save recording_library sales_trained = Inr sales_directory"
proof -
  have a: "Trainer.model sales_trained = Some sales_fitted"
    "\<not> Trainer.isOneVsRest sales_trained"
    "Trainer.encoders sales_trained = [(''color'', \<lparr>bucketCount = 1, hashSeed = 42, featureName = ''color''\<rparr>)]"
    by (simp_all add: sales_trained_def sales_loaded_def new_Trainer_def sales_fitted_def)
  have j: "json_metadata sales_metadata = sales_metadata"
    by (simp add: json_metadata_def sales_metadata_def)
  show ?thesis
    by (simp add: save_def a step_metadata j Let_def getConfig_def recording_library_def sales_directory_def)
qed

lemma step_load: "load recording_library sales_directory = Inr sales_model"
proof -
  have n: "new_Model sales_metadata
             = Inr \<lparr>metadata = sales_metadata,
                    Model.encoders = [(''color'', \<lparr>bucketCount = 1, hashSeed = 42, featureName = ''color''\<rparr>)],
                    Model.model = None, Model.oneVsRestModels = []\<rparr>"
    by (simp add: new_Model_def sales_metadata_def new_HashEncoder_def)
  have o: "\<not> ModelMetadata.isOneVsRest sales_metadata"
    by (simp add: sales_metadata_def)
  show ?thesis
    by (simp add: load_def sales_directory_def n o recording_library_def sales_model_def)
qed

lemma step_transformRecords:
  "transformRecords ref_runtime sales_loaded [sale1] = [[Num 1, Num 0]]"
  by (simp add: transformRecords_def sales_loaded_def new_Trainer_def sales_config_def sale1_def
        encodeFeature_def encode_def bucketIndex_def getProp_def Trainer_numericValue_def)

lemma step_transform:
  "transform ref_runtime sales_model sale1 = [Num 1, Num 5]"
  by (simp add: transform_def sales_model_def sales_metadata_def sale1_def
        encodeFeature_def encode_def bucketIndex_def getProp_def Model_numericValue_def
        ref_runtime_def digits_toNumber_def isDigit_def)

lemmas analyze_defs =
  loadRaw_def validateData_def analyzeFeatures_def validateInputData_def
  analyzeCategoricalFeatures_def analyzeTargetClasses_def uniqueValues_def set_add_def
  categoryKey_def getProp_def calculateBucketCount_def new_HashEncoder_def
  calculateTargetStats_def Math_min_def Math_max_def js_min2_def js_max2_def Let_def

lemma house_loadRaw:
  "loadRaw ref_runtime (new_Trainer house_config) house_data = Inr (house_loaded house_data 100 300)"
  by (simp add: house_loaded_def house_dataset_def new_Trainer_def house_config_def house_data_def
        house_def analyze_defs)

lemma flat_loadRaw:
  "loadRaw ref_runtime (new_Trainer house_config) flat_data = Inr (house_loaded flat_data 100 100)"
  by (simp add: house_loaded_def house_dataset_def new_Trainer_def house_config_def flat_data_def
        house_def analyze_defs)

lemma house_features:
  "transformFeatures ref_runtime (house_loaded ds 100 300)
      \<lparr>DataSplit.train = (house_dataset ds)\<lparr>data := [house 1 100, house 2 200]\<rparr>,
       test = (house_dataset ds)\<lparr>data := [house 3 300]\<rparr>\<rparr>
    = Inr ([[Num 1], [Num 2]], [Num 0, Num (1 / 2)], Some ([[Num 3]], [Num 1]))"
  by (simp add: transformFeatures_def transformRecords_def transformTargets_def house_loaded_def
        new_Trainer_def house_config_def house_def getProp_def Trainer_numericValue_def
        js_sub_def js_eq_def Let_def)

lemma flat_features:
  "transformFeatures ref_runtime (house_loaded ds 100 100)
      \<lparr>DataSplit.train = (house_dataset ds)\<lparr>data := [house 1 100]\<rparr>,
       test = (house_dataset ds)\<lparr>data := [house 2 100]\<rparr>\<rparr>
    = Inr ([[Num 1]], [Num (1 / 2)], Some ([[Num 2]], [Num (1 / 2)]))"
  by (simp add: transformFeatures_def transformRecords_def transformTargets_def house_loaded_def
        new_Trainer_def house_config_def house_def getProp_def Trainer_numericValue_def
        js_sub_def js_eq_def Let_def)

lemma house_split:
  "splitData (\<lambda>i. 0) (house_dataset house_data) plain_config
     = \<lparr>DataSplit.train = (house_dataset house_data)\<lparr>data := [house 1 100, house 2 200]\<rparr>,
        test = (house_dataset house_data)\<lparr>data := [house 3 300]\<rparr>\<rparr>"
  by (simp add: splitData_def plain_config_def num_or_def js_slice_def house_data_def house_dataset_def Let_def)

lemma flat_split:
  "splitData (\<lambda>i. 0) (house_dataset flat_data) plain_config
     = \<lparr>DataSplit.train = (house_dataset flat_data)\<lparr>data := [house 1 100]\<rparr>,
        test = (house_dataset flat_data)\<lparr>data := [house 2 100]\<rparr>\<rparr>"
  by (simp add: splitData_def plain_config_def num_or_def js_slice_def flat_data_def house_dataset_def Let_def)

lemma house_loaded_fields:
  "dataset (house_loaded ds lo hi) = Some (house_dataset ds)"
  "\<not> isMultiClass (house_loaded ds lo hi)"
  "Trainer.taskType (house_loaded ds lo hi) = regression"
  "configureXgbParams (house_loaded ds lo hi) = no_params\<lparr>XgbParams.objective := Some ''reg:squarederror''\<rparr>"
  by (simp_all add: house_loaded_def new_Trainer_def house_config_def configureXgbParams_def
        no_params_def str_or_def)

lemma house_train:
  "train recording_library ref_runtime example_env (house_loaded house_data 100 300) plain_config
     = Inr (house_trained house_data 100 300 (house_params, [[Num 1], [Num 2]], [Num 0, Num (1 / 2)]))"
  by (simp add: train_def house_loaded_fields example_fields house_split house_features
        trainSingleModel_def house_trained_def house_params_def Let_def)
     (simp add: house_loaded_def new_Trainer_def)

lemma flat_train:
  "train recording_library ref_runtime example_env (house_loaded flat_data 100 100) plain_config
     = Inr (house_trained flat_data 100 100 (house_params, [[Num 1]], [Num (1 / 2)]))"
  by (simp add: train_def house_loaded_fields example_fields flat_split flat_features
        trainSingleModel_def house_trained_def house_params_def Let_def)
     (simp add: house_loaded_def new_Trainer_def)





lemma pet_loadRaw: "loadRaw ref_runtime (new_Trainer pet_config) pet_data = Inr pet_loaded"
  by (simp add: pet_loaded_def pet_dataset_def new_Trainer_def pet_config_def pet_data_def pet_def
        analyze_defs)

lemma pet_split:
  "splitData (\<lambda>i. 0) pet_dataset plain_config
     = \<lparr>DataSplit.train = pet_dataset\<lparr>data := [pet ''d'' 1, pet ''a'' 2, pet ''c'' 3, pet ''b'' 4]\<rparr>,
        test = pet_dataset\<lparr>data := [pet ''a'' 5]\<rparr>\<rparr>"
  by (simp add: splitData_def plain_config_def num_or_def js_slice_def pet_data_def pet_dataset_def Let_def)

lemma pet_features:
  "transformFeatures ref_runtime pet_loaded
      \<lparr>DataSplit.train = pet_dataset\<lparr>data := [pet ''d'' 1, pet ''a'' 2, pet ''c'' 3, pet ''b'' 4]\<rparr>,
       test = pet_dataset\<lparr>data := [pet ''a'' 5]\<rparr>\<rparr>
    = Inr ([[Num 1], [Num 2], [Num 3], [Num 4]], [Num 3, Num 0, Num 2, Num 1], Some ([[Num 5]], [Num 0]))"
  by (simp add: transformFeatures_def transformRecords_def transformTargets_def pet_loaded_def
        new_Trainer_def pet_config_def pet_def getProp_def Trainer_numericValue_def Let_def)

lemma pet_loaded_fields:
  "dataset pet_loaded = Some pet_dataset"
  "isMultiClass pet_loaded"
  "shouldUseOneVsRest pet_loaded"
  "Trainer.taskType pet_loaded = classification"
  "Trainer.classes pet_loaded = [''a'', ''b'', ''c'', ''d'']"
  "Trainer.xgbParams pet_loaded = no_params\<lparr>XgbParams.objective := Some ''binary:logistic''\<rparr>"
  "configureXgbParams pet_loaded
     = no_params\<lparr>XgbParams.objective := Some ''binary:logistic'', num_class := Some 4\<rparr>"
  by (simp_all add: pet_loaded_def new_Trainer_def pet_config_def configureXgbParams_def
        shouldUseOneVsRest_def startsWith_def no_params_def str_or_def)

section \<open>Properties of Model.transform\<close>





lemma positiveEncoders_update:
  "positiveEncoders encs \<Longrightarrow> 0 < bucketCount e \<Longrightarrow> positiveEncoders (AList.update k e encs)"
  by (induction encs) (auto simp: positiveEncoders_def)

lemma positiveEncoders_map_of:
  "positiveEncoders encs \<Longrightarrow> map_of encs f = Some e \<Longrightarrow> 0 < bucketCount e"
  by (induction encs) (auto simp: positiveEncoders_def split: if_splits)

lemma restoreEncoders_positive:
  "restoreEncoders mds encs = Inr encs' \<Longrightarrow> positiveEncoders encs \<Longrightarrow> positiveEncoders encs'"
proof (induction mds arbitrary: encs)
  case Nil
  then show ?case by simp
next
  case (Cons a mds)
  then show ?case
    by (auto simp: new_HashEncoder_def positiveEncoders_update split: sum.splits if_splits)
qed

lemma load_fold_fields:
  "Model.encoders (fold (\<lambda>className m'.
        (case map_of files className of
           Some j \<Rightarrow> m'\<lparr>Model.oneVsRestModels := AList.update className (g j) (Model.oneVsRestModels m')\<rparr>
         | None \<Rightarrow> m')) cs m) = Model.encoders m
   \<and> metadata (fold (\<lambda>className m'.
        (case map_of files className of
           Some j \<Rightarrow> m'\<lparr>Model.oneVsRestModels := AList.update className (g j) (Model.oneVsRestModels m')\<rparr>
         | None \<Rightarrow> m')) cs m) = metadata m"
  by (induction cs arbitrary: m) (auto split: option.splits)

lemma load_Inr:
  assumes "load lib dir = Inr m"
  shows "metadata_json dir = Some (metadata m)"
    and "restoreEncoders (ModelMetadata.encoders (metadata m)) [] = Inr (Model.encoders m)"
  using assms
  by (auto simp: load_def new_Model_def Let_def load_fold_fields split: option.splits sum.splits if_splits)

lemma load_positive: "load lib dir = Inr m \<Longrightarrow> positiveEncoders (Model.encoders m)"
  using load_Inr(2) restoreEncoders_positive [of _ "[]"]
  by (fastforce simp: positiveEncoders_def)

lemma length_encodeFeature:
  "positiveEncoders encs \<Longrightarrow> int (length (encodeFeature rt encs r f)) = slotWidth encs f"
  by (auto simp: encodeFeature_def slotWidth_def length_encode split: option.splits
           dest: positiveEncoders_map_of)

lemma length_concat_encodeFeature:
  "positiveEncoders encs \<Longrightarrow>
     int (length (concat (map (encodeFeature rt encs r) cats))) = sum_list (map (slotWidth encs) cats)"
  by (induction cats) (simp_all add: length_encodeFeature)

lemma foldl_dimension:
  "foldl (\<lambda>count feature.
            (case map_of encs feature of Some encoder \<Rightarrow> count + getDimension encoder | None \<Rightarrow> count))
         c cats
     = c + sum_list (map (slotWidth encs) cats)"
  by (induction cats arbitrary: c) (auto simp: slotWidth_def getDimension_def split: option.splits)

lemma length_transform:
  "positiveEncoders (Model.encoders m) \<Longrightarrow> int (length (transform rt m r)) = getFeatureCount m"
  by (simp add: transform_def getFeatureCount_def foldl_dimension length_concat_encodeFeature)

lemma encodeFeature_missing:
  "map_of encs f = Some e \<Longrightarrow> r f = None \<Longrightarrow> encodeFeature rt encs r f = map Num (encode rt e JNull)"
  by (simp add: encodeFeature_def getProp_def encode_def bucketIndex_def)

text \<open>
  C2, the counterexample. The loaded model of the sales run, given a record without the
  colour, returns a vector whose colour slot is \<open>[1]\<close>, not \<open>[0]\<close>.
\<close>

theorem missing_feature_counterexample:
  "load recording_library sales_directory = Inr sales_model
   \<and> ModelMetadata.categoricalFeatures (metadata sales_model) = [''color'']
   \<and> unpriced ''color'' = None
   \<and> transform ref_runtime sales_model unpriced = [Num 1, Num 50]"
  by (simp add: step_load)
     (simp add: transform_def sales_model_def sales_metadata_def unpriced_def
        encodeFeature_def encode_def bucketIndex_def getProp_def Model_numericValue_def)

text \<open>
  C2, amended. For a loaded model and a record that omits a declared categorical feature
  with an encoder, \<open>transform\<close> (which has no failing branch) returns a vector of full
  length, \<open>getFeatureCount\<close>, in which the feature's slot is the one-hot vector of the
  sentinel \<open>"__NULL__"\<close>: it holds a \<open>1\<close> at the sentinel's bucket and is never all-zero.
\<close>

theorem transform_missing_categorical:
  assumes ld: "load lib dir = Inr m"
      and cats: "ModelMetadata.categoricalFeatures (metadata m) = pre @ f # post"
      and enc: "map_of (Model.encoders m) f = Some e"
      and miss: "r f = None"
  shows "int (length (transform rt m r)) = getFeatureCount m
       \<and> take (nat (bucketCount e))
            (drop (length (concat (map (encodeFeature rt (Model.encoders m) r) pre))) (transform rt m r))
          = map Num (encode rt e JNull)
       \<and> bucketIndex rt e JNull < nat (bucketCount e)
       \<and> map Num (encode rt e JNull) ! bucketIndex rt e JNull = Num 1"
proof -
  have pos: "positiveEncoders (Model.encoders m)"
    using ld by (rule load_positive)
  have bc: "0 < bucketCount e"
    using pos enc by (rule positiveEncoders_map_of)
  have len: "int (length (transform rt m r)) = getFeatureCount m"
    using pos by (rule length_transform)
  have idx: "bucketIndex rt e JNull < nat (bucketCount e)"
    using bc by (rule bucketIndex_less)
  have one: "map Num (encode rt e JNull) ! bucketIndex rt e JNull = Num 1"
    using idx by (simp add: length_encode encode_nth)
  have slot: "take (nat (bucketCount e))
            (drop (length (concat (map (encodeFeature rt (Model.encoders m) r) pre))) (transform rt m r))
          = map Num (encode rt e JNull)"
    using encodeFeature_missing [where encs = "Model.encoders m" and f = f and e = e and r = r and rt = rt] enc miss
    by (simp add: transform_def cats length_encode)
  show ?thesis using len slot idx one by simp
qed

theorem transform_missing_categorical_witness:
  "load recording_library sales_directory = Inr sales_model
   \<and> ModelMetadata.categoricalFeatures (metadata sales_model) = [] @ ''color'' # []
   \<and> map_of (Model.encoders sales_model) ''color''
        = Some \<lparr>bucketCount = 1, hashSeed = 42, featureName = ''color''\<rparr>
   \<and> unpriced ''color'' = None
   \<and> int (length (transform ref_runtime sales_model unpriced)) = getFeatureCount sales_model
   \<and> take 1 (transform ref_runtime sales_model unpriced) = [Num 1]"
proof -
  have c: "ModelMetadata.categoricalFeatures (metadata sales_model) = [] @ ''color'' # []"
    by (simp add: sales_model_def sales_metadata_def)
  have e: "map_of (Model.encoders sales_model) ''color''
        = Some \<lparr>bucketCount = 1, hashSeed = 42, featureName = ''color''\<rparr>"
    by (simp add: sales_model_def)
  have u: "unpriced ''color'' = None"
    by (simp add: unpriced_def)
  show ?thesis
    using transform_missing_categorical [where lib = recording_library and dir = sales_directory
            and m = sales_model and pre = "[]" and f = "''color''" and post = "[]"
            and e = "\<lparr>bucketCount = 1, hashSeed = 42, featureName = ''color''\<rparr>"
            and r = unpriced and rt = ref_runtime] step_load c e u
    by (simp add: encode_def bucketIndex_def)
qed

section \<open>Regression targets\<close>

lemma mapE_map:
  "(\<And>x. x \<in> set xs \<Longrightarrow> f x = Inr (g x)) \<Longrightarrow> mapE f xs = Inr (map g xs)"
  by (induction xs) simp_all


lemma save_Inr:
  assumes "save lib t = Inr dir"
  shows "\<exists>md. getModelMetadata t = Inr md \<and> metadata_json dir = Some (json_metadata md)"
  using assms
  by (auto simp: save_def Let_def split: if_splits sum.splits option.splits)





section \<open>One-vs-Rest training\<close>

lemma update_fresh: "k \<notin> fst ` set al \<Longrightarrow> AList.update k v al = al @ [(k, v)]"
  by (induction al) auto

lemma fold_update_distinct:
  "distinct (map c is) \<Longrightarrow> (\<forall>i \<in> set is. c i \<notin> fst ` set acc) \<Longrightarrow>
     fold (\<lambda>i al. AList.update (c i) (g i) al) is acc = acc @ map (\<lambda>i. (c i, g i)) is"
proof (induction "is" arbitrary: acc)
  case Nil
  then show ?case by simp
next
  case (Cons i "is")
  have fresh: "c i \<notin> fst ` set acc" using Cons.prems(2) by simp
  have d: "distinct (map c is)" using Cons.prems(1) by simp
  have "\<forall>j \<in> set is. c j \<notin> fst ` set (acc @ [(c i, g i)])"
    using Cons.prems by (fastforce simp: image_iff)
  then show ?case
    using Cons.IH [OF d, of "acc @ [(c i, g i)]"] fresh by (simp add: update_fresh)
qed

lemma trainOneVsRest_fold:
  "fold (\<lambda>classIdx t'.
           t'\<lparr>Trainer.oneVsRestModels := AList.update (c classIdx) (g classIdx) (Trainer.oneVsRestModels t')\<rparr>)
        is t0
     = t0\<lparr>Trainer.oneVsRestModels :=
            fold (\<lambda>i al. AList.update (c i) (g i) al) is (Trainer.oneVsRestModels t0)\<rparr>"
  by (induction "is" arbitrary: t0) simp_all

lemma trainOneVsRest_eq:
  assumes "distinct (Trainer.classes t)" and "Trainer.oneVsRestModels t = []"
  shows "trainOneVsRest lib t X y xp
           = t\<lparr>Trainer.isOneVsRest := True,
               Trainer.oneVsRestModels :=
                 map (\<lambda>classIdx. (Trainer.classes t ! classIdx,
                                   fit lib (oneVsRestParams xp) X (binaryLabels classIdx y)))
                     [0..<length (Trainer.classes t)]\<rparr>"
proof -
  have d: "distinct (map (\<lambda>i. Trainer.classes t ! i) [0..<length (Trainer.classes t)])"
    using assms(1) by (simp add: map_nth)
  show ?thesis
    unfolding trainOneVsRest_def Let_def
    by (simp add: trainOneVsRest_fold fold_update_distinct [OF d] assms(2))
qed

lemma fold_skip_set_add_distinct:
  "distinct acc \<Longrightarrow>
     distinct (fold (\<lambda>x s. if P x then s else set_add s (g x)) xs acc)"
  by (induction xs arbitrary: acc) (auto simp: set_add_def)

lemma distinct_analyzeTargetClasses: "distinct (analyzeTargetClasses rt ds tgt)"
  using fold_skip_set_add_distinct [of "[]"]
  by (simp add: analyzeTargetClasses_def Let_def)

lemma sorted_analyzeTargetClasses: "sorted (analyzeTargetClasses rt ds tgt)"
  by (simp add: analyzeTargetClasses_def)

lemma loadRaw_classification:
  assumes "loadRaw rt (new_Trainer cfg) ds = Inr t" and "Trainer.taskType t = classification"
  shows "distinct (Trainer.classes t)" and "sorted (Trainer.classes t)"
    and "Trainer.oneVsRestModels t = []"
    and "isMultiClass t = (2 < length (Trainer.classes t))"
    and "\<exists>dset. dataset t = Some dset \<and> data dset = ds"
    and "Trainer.classes t
           = (if Trainer.target t = [] then [] else analyzeTargetClasses rt ds (Trainer.target t))"
    and "Trainer.xgbParams t = TrainerConfig.xgbParams cfg"
  using assms distinct_analyzeTargetClasses [of rt ds "TrainerConfig.target cfg"]
        sorted_analyzeTargetClasses [of rt ds "TrainerConfig.target cfg"]
  by (auto simp: loadRaw_def new_Trainer_def analyzeFeatures_def Let_def sorted_sort_id
           split: if_splits sum.splits option.splits)

lemma performCrossValidation_frame:
  "performCrossValidation lib rt t config = Inr t' \<Longrightarrow>
     t'\<lparr>trainingMetrics := None\<rparr> = t\<lparr>trainingMetrics := None\<rparr>"
  by (auto simp: performCrossValidation_def split: option.splits if_splits sum.splits)

lemma trainedAt_trainingMetrics_commute:
  "(r::('m, 'e) Trainer)\<lparr>trainedAt := a, trainingMetrics := b\<rparr> = r\<lparr>trainingMetrics := b, trainedAt := a\<rparr>"
  by (cases r) simp

lemma train_Inr:
  assumes ds: "dataset t = Some dset"
      and tr: "train lib rt env t config = Inr t'"
  shows "\<exists>X y held.
           transformFeatures rt t (splitData (Math_random env) dset config) = Inr (X, y, held)
         \<and> t'\<lparr>trainingMetrics := None\<rparr>
             = (if isMultiClass t \<and> shouldUseOneVsRest t
                then trainOneVsRest lib t X y (configureXgbParams t)
                else trainSingleModel lib t X y (configureXgbParams t))
                 \<lparr>trainingMetrics := None, trainedAt := Some (timestamp env)\<rparr>"
proof -
  obtain X y held where tf:
      "transformFeatures rt t (splitData (Math_random env) dset config) = Inr (X, y, held)"
    using tr ds by (auto simp: train_def Let_def split: sum.splits)
  define t1 where "t1 = (if isMultiClass t \<and> shouldUseOneVsRest t
                then trainOneVsRest lib t X y (configureXgbParams t)
                else trainSingleModel lib t X y (configureXgbParams t))"
  define t2 where "t2 = (case held of
                           Some (X_test, y_test) \<Rightarrow>
                             t1\<lparr>trainingMetrics :=
                                  Some \<lparr>evaluation = evaluateModel env t1 X_test y_test,
                                        crossValidationScores = None\<rparr>\<rparr>
                         | None \<Rightarrow> t1)"
  have t2: "t2\<lparr>trainingMetrics := None\<rparr> = t1\<lparr>trainingMetrics := None\<rparr>"
    unfolding t2_def by (auto split: option.splits)
  obtain t3 where t3:
      "(if useCrossValidation config = Some True
        then performCrossValidation lib rt t2 config else Inr t2) = Inr t3"
      "t' = t3\<lparr>trainedAt := Some (timestamp env)\<rparr>"
    using tr unfolding train_def ds option.case Let_def tf sum.case prod.case t1_def [symmetric]
      t2_def [symmetric]
    by (auto split: sum.splits)
  have "t3\<lparr>trainingMetrics := None\<rparr> = t2\<lparr>trainingMetrics := None\<rparr>"
    using t3(1) performCrossValidation_frame by (auto split: if_splits)
  then have "t3\<lparr>trainingMetrics := None\<rparr> = t1\<lparr>trainingMetrics := None\<rparr>"
    using t2 by simp
  then have "t3\<lparr>trainingMetrics := None, trainedAt := Some (timestamp env)\<rparr>
               = t1\<lparr>trainingMetrics := None, trainedAt := Some (timestamp env)\<rparr>"
    by simp
  then have "t'\<lparr>trainingMetrics := None\<rparr>
               = t1\<lparr>trainingMetrics := None, trainedAt := Some (timestamp env)\<rparr>"
    unfolding t3(2) by (simp only: trainedAt_trainingMetrics_commute)
  then show ?thesis
    using tf unfolding t1_def by blast
qed

lemma mapE_Inr:
  "mapE f xs = Inr ys \<Longrightarrow> list_all2 (\<lambda>x y. f x = Inr y) xs ys"
  by (induction xs arbitrary: ys) (auto split: sum.splits)

lemma transformTargets_classification:
  assumes "Trainer.taskType t = classification" and "transformTargets rt t recs = Inr ys"
  shows "list_all2 (\<lambda>record y.
            \<exists>classIndex. indexOf (Trainer.classes t) (js_String rt (getProp record (Trainer.target t)))
                            = Some classIndex \<and> y = Num (real classIndex)) recs ys"
proof -
  have "list_all2 (\<lambda>record y.
          (let targetValue = js_String rt (getProp record (Trainer.target t))
           in case indexOf (Trainer.classes t) targetValue of
                None \<Rightarrow> Inl (UnknownClass targetValue)
              | Some classIndex \<Rightarrow> Inr (Num (real classIndex))) = Inr y) recs ys"
    using assms mapE_Inr by (simp add: transformTargets_def)
  then show ?thesis
    by (rule list_all2_mono) (auto simp: Let_def split: option.splits)
qed

lemma binaryLabels_records:
  assumes "list_all2 (\<lambda>record y. \<exists>classIndex. lab record = Some classIndex \<and> y = Num (real classIndex)) recs ys"
  shows "binaryLabels classIdx ys
           = map (\<lambda>record. if lab record = Some classIdx then Num 1 else Num 0) recs"
  using assms
  by (induction recs ys rule: list_all2_induct) (auto simp: binaryLabels_def js_eq_def)

lemma transformFeatures_Inr:
  assumes "transformFeatures rt t sp = Inr (X, y, held)"
  shows "X = transformRecords rt t (data (DataSplit.train sp))"
    and "transformTargets rt t (data (DataSplit.train sp)) = Inr y"
  using assms
  by (auto simp: transformFeatures_def Let_def split: sum.splits if_splits)

lemma getModelMetadata_isOneVsRest:
  "trainedAt t = Some ts \<Longrightarrow>
     \<exists>md. getModelMetadata t = Inr md \<and> ModelMetadata.isOneVsRest md = Trainer.isOneVsRest t"
  by (simp add: getModelMetadata_def Let_def)

text \<open>
  C5. A classification trainer is constructed and loaded with a dataset whose target has
  more than two distinct labels, and its configured objective does not start with
  \<open>multi:\<close>. If \<open>train\<close> returns, the stored One-vs-Rest models are, in the order of the
  sorted, duplicate-free class list, one model per class label: each is fitted on the
  encoded training part with the labels that are \<open>1\<close> for the records whose class index
  is that of the class and \<open>0\<close> for the others, and with the objective \<open>binary:logistic\<close>;
  the trainer and its metadata have \<open>isOneVsRest\<close> set.
\<close>

theorem train_one_vs_rest:
  assumes ld: "loadRaw rt (new_Trainer cfg) ds = Inr t"
      and tt: "Trainer.taskType t = classification"
      and mc: "2 < length (Trainer.classes t)"
      and ob: "\<forall>ob. XgbParams.objective (Trainer.xgbParams t) = Some ob \<longrightarrow> \<not> startsWith ob ''multi:''"
      and tr: "train lib rt env t config = Inr t'"
  shows "\<exists>dset y_train.
           dataset t = Some dset \<and> data dset = ds
         \<and> Trainer.classes t = analyzeTargetClasses rt ds (Trainer.target t)
         \<and> sorted (Trainer.classes t) \<and> distinct (Trainer.classes t)
         \<and> transformTargets rt t (data (DataSplit.train (splitData (Math_random env) dset config))) = Inr y_train
         \<and> Trainer.oneVsRestModels t'
             = map (\<lambda>classIdx.
                      (Trainer.classes t ! classIdx,
                       fit lib (oneVsRestParams (configureXgbParams t))
                         (transformRecords rt t (data (DataSplit.train (splitData (Math_random env) dset config))))
                         (binaryLabels classIdx y_train)))
                   [0..<length (Trainer.classes t)]
         \<and> (\<forall>classIdx.
               binaryLabels classIdx y_train
                 = map (\<lambda>record.
                          if indexOf (Trainer.classes t) (js_String rt (getProp record (Trainer.target t)))
                               = Some classIdx
                          then Num 1 else Num 0)
                       (data (DataSplit.train (splitData (Math_random env) dset config))))
         \<and> XGBoostParams.objective (oneVsRestParams (configureXgbParams t)) = ''binary:logistic''
         \<and> Trainer.isOneVsRest t'
         \<and> (\<exists>md. getModelMetadata t' = Inr md \<and> ModelMetadata.isOneVsRest md)"
proof -
  note lr = loadRaw_classification [OF ld tt]
  obtain dset where dset: "dataset t = Some dset" "data dset = ds"
    using lr(5) by blast
  have cls: "Trainer.classes t = analyzeTargetClasses rt ds (Trainer.target t)"
    using lr(6) mc by (auto split: if_splits)
  have multi: "isMultiClass t" using lr(4) mc by simp
  have ovr: "shouldUseOneVsRest t"
    using multi tt ob by (auto simp: shouldUseOneVsRest_def split: option.splits)
  obtain X y held where
      tf: "transformFeatures rt t (splitData (Math_random env) dset config) = Inr (X, y, held)"
      and t': "t'\<lparr>trainingMetrics := None\<rparr>
                 = (trainOneVsRest lib t X y (configureXgbParams t))
                      \<lparr>trainingMetrics := None, trainedAt := Some (timestamp env)\<rparr>"
    using train_Inr [OF dset(1) tr] multi ovr by auto
  note tfi = transformFeatures_Inr [OF tf]
  have models: "Trainer.oneVsRestModels t'
             = map (\<lambda>classIdx.
                      (Trainer.classes t ! classIdx,
                       fit lib (oneVsRestParams (configureXgbParams t)) X (binaryLabels classIdx y)))
                   [0..<length (Trainer.classes t)]"
    and flag: "Trainer.isOneVsRest t'" and at: "trainedAt t' = Some (timestamp env)"
    using arg_cong [OF t', of Trainer.oneVsRestModels] arg_cong [OF t', of Trainer.isOneVsRest]
      arg_cong [OF t', of trainedAt]
    by (simp_all add: trainOneVsRest_eq [OF lr(1) lr(3)])
  have labels: "binaryLabels classIdx y
                 = map (\<lambda>record.
                          if indexOf (Trainer.classes t) (js_String rt (getProp record (Trainer.target t)))
                               = Some classIdx
                          then Num 1 else Num 0)
                       (data (DataSplit.train (splitData (Math_random env) dset config)))" for classIdx
    using binaryLabels_records [OF transformTargets_classification [OF tt tfi(2)]] .
  have md: "\<exists>md. getModelMetadata t' = Inr md \<and> ModelMetadata.isOneVsRest md"
    using getModelMetadata_isOneVsRest [OF at] flag by auto
  have obj: "XGBoostParams.objective (oneVsRestParams (configureXgbParams t)) = ''binary:logistic''"
    by (simp add: oneVsRestParams_def)
  show ?thesis
    using dset cls lr(1) lr(2) tfi models labels obj flag md by blast
qed

lemma pet_oneVsRest:
  "trainOneVsRest recording_library pet_loaded [[Num 1], [Num 2], [Num 3], [Num 4]]
      [Num 3, Num 0, Num 2, Num 1]
      (no_params\<lparr>XgbParams.objective := Some ''binary:logistic'', num_class := Some 4\<rparr>)
    = pet_loaded
       \<lparr>Trainer.isOneVsRest := True,
        Trainer.oneVsRestModels :=
          [(''a'', (pet_params, [[Num 1], [Num 2], [Num 3], [Num 4]], [Num 0, Num 1, Num 0, Num 0])),
           (''b'', (pet_params, [[Num 1], [Num 2], [Num 3], [Num 4]], [Num 0, Num 0, Num 0, Num 1])),
           (''c'', (pet_params, [[Num 1], [Num 2], [Num 3], [Num 4]], [Num 0, Num 0, Num 1, Num 0])),
           (''d'', (pet_params, [[Num 1], [Num 2], [Num 3], [Num 4]], [Num 1, Num 0, Num 0, Num 0]))]\<rparr>"
proof -
  have n: "[0..<4] = [0, 1, 2, 3]" by (simp add: upt_rec)
  have m: "Trainer.oneVsRestModels pet_loaded = []" by (simp add: pet_loaded_def new_Trainer_def)
  show ?thesis
    by (simp add: trainOneVsRest_def pet_loaded_fields n m binaryLabels_def js_eq_def example_fields
          pet_params_def Let_def)
qed

lemma pet_train:
  "train recording_library ref_runtime example_env pet_loaded plain_config = Inr pet_trained"
  by (simp add: train_def pet_loaded_fields example_fields pet_split pet_features pet_oneVsRest
        pet_trained_def Let_def)

theorem train_one_vs_rest_witness:
  "loadRaw ref_runtime (new_Trainer pet_config) pet_data = Inr pet_loaded
   \<and> Trainer.taskType pet_loaded = classification
   \<and> 2 < length (Trainer.classes pet_loaded)
   \<and> XgbParams.objective (Trainer.xgbParams pet_loaded) = Some ''binary:logistic''
   \<and> \<not> startsWith ''binary:logistic'' ''multi:''
   \<and> train recording_library ref_runtime example_env pet_loaded plain_config = Inr pet_trained
   \<and> map fst (Trainer.oneVsRestModels pet_trained) = [''a'', ''b'', ''c'', ''d'']
   \<and> map (\<lambda>(className, params, X, y). (XGBoostParams.objective params, y))
          (Trainer.oneVsRestModels pet_trained)
       = [(''binary:logistic'', [Num 0, Num 1, Num 0, Num 0]),
          (''binary:logistic'', [Num 0, Num 0, Num 0, Num 1]),
          (''binary:logistic'', [Num 0, Num 0, Num 1, Num 0]),
          (''binary:logistic'', [Num 1, Num 0, Num 0, Num 0])]
   \<and> Trainer.isOneVsRest pet_trained
   \<and> (\<exists>md. getModelMetadata pet_trained = Inr md \<and> ModelMetadata.isOneVsRest md)"
proof -
  have tt: "Trainer.taskType pet_loaded = classification"
    and mc: "2 < length (Trainer.classes pet_loaded)"
    and ob: "\<forall>ob. XgbParams.objective (Trainer.xgbParams pet_loaded) = Some ob
                    \<longrightarrow> \<not> startsWith ob ''multi:''"
    and ob': "XgbParams.objective (Trainer.xgbParams pet_loaded) = Some ''binary:logistic''"
    and sw: "\<not> startsWith ''binary:logistic'' ''multi:''"
    by (simp_all add: pet_loaded_fields startsWith_def no_params_def)
  have models: "map fst (Trainer.oneVsRestModels pet_trained) = [''a'', ''b'', ''c'', ''d'']"
     "map (\<lambda>(className, params, X, y). (XGBoostParams.objective params, y))
          (Trainer.oneVsRestModels pet_trained)
       = [(''binary:logistic'', [Num 0, Num 1, Num 0, Num 0]),
          (''binary:logistic'', [Num 0, Num 0, Num 0, Num 1]),
          (''binary:logistic'', [Num 0, Num 0, Num 1, Num 0]),
          (''binary:logistic'', [Num 1, Num 0, Num 0, Num 0])]"
     "Trainer.isOneVsRest pet_trained"
    by (simp_all add: pet_trained_def pet_params_def oneVsRestParams_def)
  have md: "\<exists>md. getModelMetadata pet_trained = Inr md \<and> ModelMetadata.isOneVsRest md"
    using train_one_vs_rest [OF pet_loadRaw tt mc ob pet_train] by blast
  show ?thesis
    using pet_loadRaw tt mc ob' sw pet_train models md by simp
qed

section \<open>Cross-validation\<close>



























section \<open>Training returns\<close>

text \<open>
  \<^verbatim>\<open>train\<close> throws only where \<^verbatim>\<open>transformTargets\<close> does. The shuffle permutes the records,
  and the split and the folds take sublists of them, so \<^verbatim>\<open>train\<close> returns whenever
  \<^verbatim>\<open>transformTargets\<close> accepts every sublist of the loaded records. After a successful
  \<^verbatim>\<open>loadRaw\<close> that is the case for every regression dataset, and for a classification dataset
  with a non-empty target name and no \<^verbatim>\<open>null\<close> or \<^verbatim>\<open>undefined\<close> target.
\<close>

lemma mapE_all_succeed:
  "\<forall>x \<in> set xs. \<exists>y. f x = Inr y \<Longrightarrow> \<exists>ys. mapE f xs = Inr ys"
proof (induction xs)
  case Nil
  then show ?case by simp
next
  case (Cons x xs)
  obtain y where y: "f x = Inr y" using Cons.prems by auto
  obtain ys where ys: "mapE f xs = Inr ys" using Cons by auto
  show ?case by (simp add: y ys)
qed

lemma mapE_each: "mapE f xs = Inr ys \<Longrightarrow> x \<in> set xs \<Longrightarrow> \<exists>y. f x = Inr y"
  by (induction xs arbitrary: ys) (auto split: sum.splits)

lemma set_shuffleLoop: "i < length xs \<Longrightarrow> set (shuffleLoop rand i xs) = set xs"
proof (induction i arbitrary: xs)
  case 0
  then show ?case by simp
next
  case (Suc i)
  define j where "j = nat \<lfloor>rand (Suc i) * real (Suc i + 1)\<rfloor>"
  define ys where "ys = (if j \<le> Suc i then xs[Suc i := xs ! j, j := xs ! Suc i] else xs)"
  have step: "shuffleLoop rand (Suc i) xs = shuffleLoop rand i ys"
    unfolding ys_def j_def shuffleLoop.simps Let_def ..
  have len: "i < length ys" using Suc.prems by (simp add: ys_def)
  have "set ys = set xs"
    using Suc.prems by (simp add: ys_def set_swap)
  then show ?case
    using Suc.IH [OF len] step by simp
qed

lemma set_shuffled: "set (shuffleLoop rand (length xs - 1) xs) = set xs"
  by (cases xs) (simp_all add: set_shuffleLoop)

lemma set_js_slice: "set (js_slice a b xs) \<subseteq> set xs"
  unfolding js_slice_def Let_def
  by (meson set_take_subset set_drop_subset subset_trans)

lemma splitData_subset:
  "set (data (DataSplit.train (splitData rand ds config))) \<subseteq> set (data ds)"
  "set (data (test (splitData rand ds config))) \<subseteq> set (data ds)"
  using set_js_slice [of _ _ "data ds"]
        set_js_slice [of _ _ "shuffleLoop rand (length (data ds) - 1) (data ds)"]
        set_shuffled [of rand "data ds"]
  by (auto simp: splitData_def Let_def)

lemma fold_subsets:
  "set (foldTestData ds K k) \<subseteq> set ds" "set (foldTrainData ds K k) \<subseteq> set ds"
  using set_js_slice [of _ _ ds]
  by (auto simp: foldTestData_def foldTrainData_def Let_def)

lemma transformFeatures_returns:
  assumes "targetsTransform rt t (data ds)"
  shows "\<exists>r. transformFeatures rt t (splitData rand ds config) = Inr r"
proof -
  obtain y1 where y1: "transformTargets rt t (data (DataSplit.train (splitData rand ds config))) = Inr y1"
    using assms splitData_subset(1) unfolding targetsTransform_def by blast
  obtain y2 where y2: "transformTargets rt t (data (test (splitData rand ds config))) = Inr y2"
    using assms splitData_subset(2) unfolding targetsTransform_def by blast
  show ?thesis
    by (simp add: transformFeatures_def Let_def y1 y2)
qed

lemma crossValidationFold_returns:
  assumes "targetsTransform rt t ds"
  shows "\<exists>score. crossValidationFold lib rt t ds K k = Inr score"
proof -
  obtain y1 where y1: "transformTargets rt t (foldTrainData ds K k) = Inr y1"
    using assms fold_subsets(2) unfolding targetsTransform_def by blast
  obtain y2 where y2: "transformTargets rt t (foldTestData ds K k) = Inr y2"
    using assms fold_subsets(1) unfolding targetsTransform_def by blast
  show ?thesis
    by (simp add: crossValidationFold_def Let_def y1 y2)
qed

lemma transformTargets_frame:
  assumes "Trainer.taskType t' = Trainer.taskType t" and "Trainer.target t' = Trainer.target t"
      and "Trainer.classes t' = Trainer.classes t"
      and "Trainer.targetNormalization t' = Trainer.targetNormalization t"
  shows "transformTargets rt t' = transformTargets rt t"
  unfolding transformTargets_def assms ..

lemma performCrossValidation_returns:
  assumes "dataset t = Some dset" and "targetsTransform rt t (data dset)"
  shows "\<exists>t'. performCrossValidation lib rt t config = Inr t'"
proof -
  have "\<forall>k \<in> set (map int [0..<nat (foldCount config)]).
          \<exists>score. crossValidationFold lib rt t (data dset) (foldCount config) k = Inr score"
    using crossValidationFold_returns [OF assms(2), of lib "foldCount config"] by simp
  from mapE_all_succeed [OF this] obtain scores where
    "mapE (crossValidationFold lib rt t (data dset) (foldCount config))
          (map int [0..<nat (foldCount config)]) = Inr scores" ..
  then show ?thesis
    by (simp add: performCrossValidation_def assms(1))
qed

lemma train_returns:
  assumes ds: "dataset t = Some dset" and ok: "targetsTransform rt t (data dset)"
  shows "\<exists>t'. train lib rt env t config = Inr t'"
proof -
  obtain X y held where tf:
      "transformFeatures rt t (splitData (Math_random env) dset config) = Inr (X, y, held)"
    using transformFeatures_returns [OF ok] by (metis prod_cases3)
  define t1 where "t1 = (if isMultiClass t \<and> shouldUseOneVsRest t
                then trainOneVsRest lib t X y (configureXgbParams t)
                else trainSingleModel lib t X y (configureXgbParams t))"
  define t2 where "t2 = (case held of
                           Some (X_test, y_test) \<Rightarrow>
                             t1\<lparr>trainingMetrics :=
                                  Some \<lparr>evaluation = evaluateModel env t1 X_test y_test,
                                        crossValidationScores = None\<rparr>\<rparr>
                         | None \<Rightarrow> t1)"
  have f1: "Trainer.taskType t1 = Trainer.taskType t" "Trainer.target t1 = Trainer.target t"
    "Trainer.classes t1 = Trainer.classes t"
    "Trainer.targetNormalization t1 = Trainer.targetNormalization t" "dataset t1 = dataset t"
    unfolding t1_def
    by (simp_all add: trainOneVsRest_def trainOneVsRest_fold trainSingleModel_def Let_def)
  have f2: "Trainer.taskType t2 = Trainer.taskType t" "Trainer.target t2 = Trainer.target t"
    "Trainer.classes t2 = Trainer.classes t"
    "Trainer.targetNormalization t2 = Trainer.targetNormalization t" "dataset t2 = dataset t"
    unfolding t2_def using f1 by (auto split: option.splits)
  have "targetsTransform rt t2 (data dset)"
    using ok transformTargets_frame [OF f2(1-4)] by (simp add: targetsTransform_def)
  then obtain t3 where t3: "performCrossValidation lib rt t2 config = Inr t3"
    using performCrossValidation_returns [of t2 dset rt lib config] f2(5) ds by auto
  show ?thesis
    unfolding train_def ds option.case Let_def tf sum.case prod.case t1_def [symmetric]
      t2_def [symmetric]
    using t3 by simp
qed


lemma fold_set_add_unless:
  "set (fold (\<lambda>x s. if P x then s else set_add s (g x)) xs acc) = set acc \<union> g ` {x \<in> set xs. \<not> P x}"
  by (induction xs arbitrary: acc) (auto simp: set_add_def)

lemma set_analyzeTargetClasses:
  "set (analyzeTargetClasses rt ds tgt)
     = (\<lambda>record. js_String rt (getProp record tgt))
         ` {record \<in> set ds. \<not> (getProp record tgt = JNull \<or> getProp record tgt = JUndefined)}"
  unfolding analyzeTargetClasses_def Let_def
  by (simp add: fold_set_add_unless)

lemma indexOf_member: "x \<in> set xs \<Longrightarrow> \<exists>i. indexOf xs x = Some i"
  by (induction xs) auto

lemma transformTargets_classification_returns:
  assumes tt: "Trainer.taskType t = classification"
      and cl: "Trainer.classes t = analyzeTargetClasses rt ds (Trainer.target t)"
      and nn: "\<forall>rcd \<in> set ds. getProp rcd (Trainer.target t) \<noteq> JNull
                                \<and> getProp rcd (Trainer.target t) \<noteq> JUndefined"
      and sub: "set records \<subseteq> set ds"
  shows "\<exists>ys. transformTargets rt t records = Inr ys"
proof -
  define labelIndex where
    "labelIndex = (\<lambda>rcd. (let targetValue = js_String rt (getProp rcd (Trainer.target t))
                           in case indexOf (Trainer.classes t) targetValue of
                                None \<Rightarrow> Inl (UnknownClass targetValue)
                              | Some classIndex \<Rightarrow> Inr (Num (real classIndex))))"
  have eq: "transformTargets rt t records = mapE labelIndex records"
    by (simp add: transformTargets_def tt labelIndex_def)
  have "\<exists>y. labelIndex rcd = Inr y" if mem: "rcd \<in> set records" for rcd
  proof -
    have in_ds: "rcd \<in> set ds" using mem sub by (rule subsetD [rotated])
    have nonnull: "getProp rcd (Trainer.target t) \<noteq> JNull"
                  "getProp rcd (Trainer.target t) \<noteq> JUndefined"
      using nn in_ds by simp_all
    have "js_String rt (getProp rcd (Trainer.target t)) \<in> set (Trainer.classes t)"
      unfolding cl set_analyzeTargetClasses
      by (rule image_eqI [where x = rcd]) (simp_all add: in_ds nonnull)
    then obtain i where
        "indexOf (Trainer.classes t) (js_String rt (getProp rcd (Trainer.target t))) = Some i"
      using indexOf_member [of "js_String rt (getProp rcd (Trainer.target t))" "Trainer.classes t"]
      by auto
    then show ?thesis by (simp add: labelIndex_def Let_def)
  qed
  then have "\<forall>rcd \<in> set records. \<exists>y. labelIndex rcd = Inr y" by simp
  then show ?thesis
    unfolding eq by (rule mapE_all_succeed)
qed

lemma transformTargets_regression_returns:
  assumes tt: "Trainer.taskType t \<noteq> classification"
      and tn: "Trainer.targetNormalization t = Some tn"
      and tv: "mapE (\<lambda>rcd. targetNumber rt (getProp rcd (Trainer.target t))) ds = Inr targetValues"
      and sub: "set records \<subseteq> set ds"
  shows "\<exists>ys. transformTargets rt t records = Inr ys"
proof (cases "js_eq (js_sub (norm_max tn) (norm_min tn)) (Num 0)")
  case True
  then show ?thesis by (simp add: transformTargets_def tt tn Let_def)
next
  case False
  define scaled where
    "scaled = (\<lambda>rcd. (case targetNumber rt (getProp rcd (Trainer.target t)) of
                         Inl err \<Rightarrow> Inl err
                       | Inr numericValue \<Rightarrow>
                           Inr (js_div (js_sub numericValue (norm_min tn))
                                  (js_sub (norm_max tn) (norm_min tn)))))"
  have eq: "transformTargets rt t records = mapE scaled records"
    by (simp add: transformTargets_def tt tn Let_def False scaled_def)
  have "\<exists>y. scaled rcd = Inr y" if mem: "rcd \<in> set records" for rcd
  proof -
    have in_ds: "rcd \<in> set ds" using mem sub by (rule subsetD [rotated])
    obtain v where "targetNumber rt (getProp rcd (Trainer.target t)) = Inr v"
      using mapE_each [OF tv in_ds] by auto
    then show ?thesis by (simp add: scaled_def)
  qed
  then have "\<forall>rcd \<in> set records. \<exists>y. scaled rcd = Inr y" by simp
  then show ?thesis
    unfolding eq by (rule mapE_all_succeed)
qed


lemma loadRaw_regression:
  assumes "loadRaw rt (new_Trainer cfg) ds = Inr t" and "Trainer.taskType t \<noteq> classification"
  shows "\<exists>tn. Trainer.targetNormalization t = Some tn"
    and "\<exists>targetValues. mapE (\<lambda>rcd. targetNumber rt (getProp rcd (Trainer.target t))) ds
                           = Inr targetValues"
    and "\<exists>dset. dataset t = Some dset \<and> data dset = ds"
  using assms
  by (auto simp: loadRaw_def new_Trainer_def calculateTargetStats_def Let_def
           split: if_splits sum.splits option.splits)

lemma loadRaw_targetsTransform:
  assumes ld: "loadRaw rt (new_Trainer cfg) ds = Inr t"
      and nn: "Trainer.taskType t = classification \<Longrightarrow>
                 Trainer.target t \<noteq> []
                 \<and> (\<forall>rcd \<in> set ds. getProp rcd (Trainer.target t) \<noteq> JNull
                                   \<and> getProp rcd (Trainer.target t) \<noteq> JUndefined)"
  shows "targetsTransform rt t ds"
proof (cases "Trainer.taskType t = classification")
  case True
  have cl: "Trainer.classes t = analyzeTargetClasses rt ds (Trainer.target t)"
    using loadRaw_classification(6) [OF ld True] nn [OF True] by simp
  have nonnull: "\<forall>rcd \<in> set ds. getProp rcd (Trainer.target t) \<noteq> JNull
                                  \<and> getProp rcd (Trainer.target t) \<noteq> JUndefined"
    using nn [OF True] by (rule conjunct2)
  show ?thesis
    unfolding targetsTransform_def
    using transformTargets_classification_returns [OF True cl nonnull] by simp
next
  case False
  obtain tn where tn: "Trainer.targetNormalization t = Some tn"
    using loadRaw_regression(1) [OF ld False] by auto
  obtain targetValues where tv:
      "mapE (\<lambda>rcd. targetNumber rt (getProp rcd (Trainer.target t))) ds = Inr targetValues"
    using loadRaw_regression(2) [OF ld False] by auto
  show ?thesis
    unfolding targetsTransform_def
    using transformTargets_regression_returns [OF False tn tv] by simp
qed

lemma train_returns_after_loadRaw:
  assumes ld: "loadRaw rt (new_Trainer cfg) ds = Inr t"
      and nn: "Trainer.taskType t = classification \<Longrightarrow>
                 Trainer.target t \<noteq> []
                 \<and> (\<forall>rcd \<in> set ds. getProp rcd (Trainer.target t) \<noteq> JNull
                                   \<and> getProp rcd (Trainer.target t) \<noteq> JUndefined)"
  shows "\<exists>t'. train lib rt env t config = Inr t'"
proof -
  obtain dset where dset: "dataset t = Some dset" "data dset = ds"
    using loadRaw_classification(5) [OF ld] loadRaw_regression(3) [OF ld] by auto
  have "targetsTransform rt t (data dset)"
    using loadRaw_targetsTransform [OF ld nn] dset(2) by simp
  then show ?thesis
    by (rule train_returns [OF dset(1)])
qed

section \<open>Training and inference on the same record\<close>

lemma wellKeyed_update:
  assumes "wellKeyed encs" and "featureName e = k" and "0 < bucketCount e"
  shows "wellKeyed (AList.update k e encs)"
proof -
  have "list_all (\<lambda>(name, e). featureName e = name \<and> 0 < bucketCount e) (AList.update k e encs)"
    using assms by (induction encs) (auto simp: wellKeyed_def)
  then show ?thesis
    using assms(1) by (simp add: wellKeyed_def distinct_update)
qed

lemma createEncoders_wellKeyed:
  "createEncoders specs encs = Inr encs' \<Longrightarrow> wellKeyed encs \<Longrightarrow> wellKeyed encs'"
proof (induction specs arbitrary: encs)
  case Nil
  then show ?case by simp
next
  case (Cons a specs)
  obtain feature spec where a: "a = (feature, spec)" by (cases a)
  show ?case
    using Cons.prems Cons.IH a
    by (auto simp: new_HashEncoder_def wellKeyed_update split: sum.splits if_splits)
qed

lemma loadRaw_wellKeyed:
  assumes "loadRaw rt t ds = Inr t'" and "wellKeyed (Trainer.encoders t)"
  shows "wellKeyed (Trainer.encoders t')"
    and "Trainer.categoricalFeatures t' = Trainer.categoricalFeatures t"
    and "Trainer.numericFeatures t' = Trainer.numericFeatures t"
    and "\<exists>dset. dataset t' = Some dset"
  using assms createEncoders_wellKeyed
  by (auto simp: loadRaw_def Let_def split: if_splits sum.splits)

lemma trainOneVsRest_frame:
  "Trainer.encoders (trainOneVsRest lib t X y xp) = Trainer.encoders t
   \<and> Trainer.categoricalFeatures (trainOneVsRest lib t X y xp) = Trainer.categoricalFeatures t
   \<and> Trainer.numericFeatures (trainOneVsRest lib t X y xp) = Trainer.numericFeatures t"
  by (simp add: trainOneVsRest_def Let_def trainOneVsRest_fold)

lemma train_frame:
  assumes "dataset t = Some dset" and "train lib rt env t config = Inr t'"
  shows "Trainer.encoders t' = Trainer.encoders t"
    and "Trainer.categoricalFeatures t' = Trainer.categoricalFeatures t"
    and "Trainer.numericFeatures t' = Trainer.numericFeatures t"
proof -
  obtain X y held where
    eq: "t'\<lparr>trainingMetrics := None\<rparr>
             = (if isMultiClass t \<and> shouldUseOneVsRest t
                then trainOneVsRest lib t X y (configureXgbParams t)
                else trainSingleModel lib t X y (configureXgbParams t))
                 \<lparr>trainingMetrics := None, trainedAt := Some (timestamp env)\<rparr>"
    using train_Inr [OF assms] by blast
  show "Trainer.encoders t' = Trainer.encoders t"
    using arg_cong [OF eq, of Trainer.encoders]
    by (simp add: trainOneVsRest_frame trainSingleModel_def split: if_splits)
  show "Trainer.categoricalFeatures t' = Trainer.categoricalFeatures t"
    using arg_cong [OF eq, of Trainer.categoricalFeatures]
    by (simp add: trainOneVsRest_frame trainSingleModel_def split: if_splits)
  show "Trainer.numericFeatures t' = Trainer.numericFeatures t"
    using arg_cong [OF eq, of Trainer.numericFeatures]
    by (simp add: trainOneVsRest_frame trainSingleModel_def split: if_splits)
qed

lemma getModelMetadata_fields:
  assumes "getModelMetadata t = Inr md"
  shows "ModelMetadata.categoricalFeatures md = Trainer.categoricalFeatures t"
    and "ModelMetadata.numericFeatures md = Trainer.numericFeatures t"
    and "ModelMetadata.encoders md
           = map (\<lambda>(name, encoder).
                    \<lparr>bucketCount = bucketCount encoder, hashSeed = hashSeed encoder,
                     featureName = featureName encoder, uniqueCount = 0\<rparr>)
                 (Trainer.encoders t)"
  using assms
  by (auto simp: getModelMetadata_def Let_def split: option.splits if_splits)

lemma restoreEncoders_wellKeyed:
  assumes "distinct (map fst (acc @ encs))"
      and "list_all (\<lambda>(name, e). featureName e = name \<and> 0 < bucketCount e) encs"
  shows "restoreEncoders
           (map (\<lambda>(name, encoder).
                   \<lparr>bucketCount = bucketCount encoder, hashSeed = hashSeed encoder,
                    featureName = featureName encoder, uniqueCount = 0\<rparr>) encs) acc
         = Inr (acc @ encs)"
  using assms
proof (induction encs arbitrary: acc)
  case Nil
  then show ?case by simp
next
  case (Cons a encs)
  obtain name e where a: "a = (name, e)" by (cases a)
  have e: "featureName e = name" "0 < bucketCount e"
    using Cons.prems(2) a by simp_all
  have fresh: "name \<notin> fst ` set acc"
    using Cons.prems(1) a by auto
  have same: "\<lparr>bucketCount = bucketCount e, hashSeed = hashSeed e, featureName = name\<rparr> = e"
    using e(1) by simp
  have d: "distinct (map fst ((acc @ [(name, e)]) @ encs))"
    using Cons.prems(1) a by simp
  have l: "list_all (\<lambda>(name, e). featureName e = name \<and> 0 < bucketCount e) encs"
    using Cons.prems(2) by simp
  show ?case
    using Cons.IH [OF d l] e fresh
    by (simp add: a new_HashEncoder_def update_fresh same)
qed

lemma new_Trainer_wellKeyed: "wellKeyed (Trainer.encoders (new_Trainer cfg))"
  by (simp add: wellKeyed_def new_Trainer_def)

lemma numericValue_agree:
  "(\<forall>s. v = JStr s \<longrightarrow> string_toNumber rt s = NaN) \<Longrightarrow>
     Model_numericValue rt v = Trainer_numericValue v"
  by (cases v) (simp_all add: Model_numericValue_def Trainer_numericValue_def)

text \<open>
  After the constructor, \<open>loadRaw\<close>, \<open>train\<close>, \<open>save\<close> and \<open>load\<close>, the model holds the
  trainer's encoders and feature lists; the two encodings of a record agree whenever none
  of its numeric features holds a string that \<open>Number\<close> reads as a number.
\<close>

lemma roundtrip_transform_agrees:
  assumes ld: "loadRaw rt (new_Trainer cfg) ds = Inr t1"
      and tr: "train lib rt env t1 config = Inr t2"
      and sv: "save lib t2 = Inr dir"
      and lo: "load lib dir = Inr m"
  shows "Model.encoders m = Trainer.encoders t1"
    and "ModelMetadata.categoricalFeatures (metadata m) = Trainer.categoricalFeatures t1"
    and "ModelMetadata.numericFeatures (metadata m) = Trainer.numericFeatures t1"
    and "(\<forall>f \<in> set (Trainer.numericFeatures t1). \<forall>s. getProp r f = JStr s \<longrightarrow> string_toNumber rt s = NaN)
           \<Longrightarrow> transformRecords rt t1 [r] = [transform rt m r]"
proof -
  note l1 = loadRaw_wellKeyed [OF ld new_Trainer_wellKeyed]
  obtain dset where dset: "dataset t1 = Some dset" using l1(4) by blast
  note fr = train_frame [OF dset tr]
  obtain md where md: "getModelMetadata t2 = Inr md" "metadata_json dir = Some (json_metadata md)"
    using save_Inr [OF sv] by blast
  note mf = getModelMetadata_fields [OF md(1)]
  have mm: "metadata m = json_metadata md"
    using load_Inr(1) [OF lo] md(2) by simp
  have wk: "distinct (map fst ([] @ Trainer.encoders t1))"
       "list_all (\<lambda>(name, e). featureName e = name \<and> 0 < bucketCount e) (Trainer.encoders t1)"
    using l1(1) by (simp_all add: wellKeyed_def)
  have "restoreEncoders (ModelMetadata.encoders (metadata m)) [] = Inr ([] @ Trainer.encoders t1)"
    unfolding mm using restoreEncoders_wellKeyed [OF wk]
    by (simp add: json_metadata_def mf fr)
  then show enc: "Model.encoders m = Trainer.encoders t1"
    using load_Inr(2) [OF lo] by simp
  show cats: "ModelMetadata.categoricalFeatures (metadata m) = Trainer.categoricalFeatures t1"
    by (simp add: mm json_metadata_def mf fr)
  show nums: "ModelMetadata.numericFeatures (metadata m) = Trainer.numericFeatures t1"
    by (simp add: mm json_metadata_def mf fr)
  show "transformRecords rt t1 [r] = [transform rt m r]"
    if "\<forall>f \<in> set (Trainer.numericFeatures t1). \<forall>s. getProp r f = JStr s \<longrightarrow> string_toNumber rt s = NaN"
    using that
    by (simp add: transformRecords_def transform_def enc cats nums numericValue_agree)
qed

text \<open>
  C1, at a failing input. The sales run is trained, saved and loaded; for its first record,
  whose price is the numeric string \<open>"5"\<close>, the trainer encodes the price as \<open>0\<close> (the
  model was fitted on \<open>[1, 0]\<close>) and the loaded model encodes it as \<open>5\<close>.
\<close>

theorem roundtrip_numeric_string:
  "loadRaw ref_runtime (new_Trainer sales_config) sales_data = Inr sales_loaded
   \<and> train recording_library ref_runtime example_env sales_loaded plain_config = Inr sales_trained
   \<and> save recording_library sales_trained = Inr sales_directory
   \<and> load recording_library sales_directory = Inr sales_model
   \<and> sale1 \<in> set sales_data
   \<and> sale1 ''price'' = Some (JStr ''5'')
   \<and> transformRecords ref_runtime sales_loaded [sale1] = [[Num 1, Num 0]]
   \<and> transform ref_runtime sales_model sale1 = [Num 1, Num 5]"
  by (simp add: step_loadRaw step_train step_save step_load step_transformRecords step_transform)
     (simp add: sales_data_def sale1_def)

end
